theory Spec2Isabelle
  imports Complex_Main "HOL-Library.Word"
begin

section \<open>Strings as the source uses them\<close>

text \<open>
  JavaScript strings are modelled as \<^typ>\<open>string\<close> (lists of 8-bit characters), so the
  model covers ASCII text; \<open>toLowerCase\<close> maps \<open>A..Z\<close> to \<open>a..z\<close> and leaves every
  other character alone.
\<close>

definition lower_char :: "char \<Rightarrow> char" where
  "lower_char c =
     (case map_of (zip ''ABCDEFGHIJKLMNOPQRSTUVWXYZ'' ''abcdefghijklmnopqrstuvwxyz'') c of
        Some d \<Rightarrow> d
      | None \<Rightarrow> c)"

definition toLowerCase :: "string \<Rightarrow> string" where
  "toLowerCase s = map lower_char s"

text \<open>
  \<open>s.split(' ')\<close>: cuts at every single space; two spaces in a row give an empty token and
  the empty string gives one empty token, so the result is never empty.
\<close>

fun split_space :: "string \<Rightarrow> string list" where
  "split_space [] = [[]]"
| "split_space (c # cs) =
     (let r = split_space cs
      in if c = CHR '' '' then [] # r else (c # hd r) # tl r)"

text \<open>\<open>word.replace(/[.,!?]/g, '')\<close>\<close>

definition strip_punct :: "string \<Rightarrow> string" where
  "strip_punct w = filter (\<lambda>c. c \<notin> set ''.,!?'') w"

section \<open>Timeline recorder and filler words (interview page)\<close>

record timeline_event =
  timestamp :: real
  etype :: string
  data_word :: string
  severity :: string

definition logEvent :: "timeline_event list \<Rightarrow> timeline_event \<Rightarrow> timeline_event list" where
  "logEvent timeline e = timeline @ [e]"

definition fillerWords :: "string list" where
  "fillerWords = [''um'', ''uh'', ''like'', ''you know'', ''basically'', ''literally'']"

definition filler_event :: "real \<Rightarrow> string \<Rightarrow> timeline_event" where
  "filler_event ts w =
     \<lparr>timestamp = ts, etype = ''filler_word'', data_word = w, severity = ''warning''\<rparr>"

definition detectFillerWords :: "string \<Rightarrow> real \<Rightarrow> timeline_event list \<Rightarrow> timeline_event list" where
  "detectFillerWords text ts timeline =
     foldl (\<lambda>acc w. if strip_punct w \<in> set fillerWords
                      then logEvent acc (filler_event ts w) else acc)
       timeline (split_space (toLowerCase text))"

section \<open>Audio playback engine (utils/audioUtils.ts, class AudioPlayer)\<close>

text \<open>
  Errors the platform calls can raise inside \<open>playChunk\<close>: \<open>atob\<close> on text that is not
  base64, \<open>new Int16Array\<close> on a byte length that is not a multiple of 2,
  \<open>createBuffer\<close> with a zero argument, the explicit \<open>throw new Error('No audio context')\<close>,
  and a method call on the null context.
\<close>

datatype js_error =
  InvalidCharacterError | RangeError | NotSupportedError | NoAudioContext | TypeError

record AudioBuffer =
  numberOfChannels :: nat
  sampleRate :: nat
  channelData :: "real list list"

datatype context_state = Suspended | Running

text \<open>
  The fields \<open>audioContext\<close>, \<open>audioQueue\<close> and \<open>isPlaying\<close> are the class's own.
  \<open>rendering\<close> holds the source nodes that were started and whose \<open>onended\<close> has not fired
  yet, \<open>started\<close> every buffer ever passed to \<open>source.start(0)\<close>, in order; \<open>console\<close> the
  \<open>console.error\<close> calls and \<open>uncaught\<close> the exceptions that leave an event handler.
\<close>

record AudioPlayer =
  audioContext :: "context_state option"
  audioQueue :: "AudioBuffer list"
  isPlaying :: bool
  rendering :: "AudioBuffer list"
  started :: "AudioBuffer list"
  console :: "(string \<times> js_error option) list"
  uncaught :: "js_error list"

definition new_AudioPlayer :: "context_state \<Rightarrow> AudioPlayer" where
  "new_AudioPlayer cs =
     \<lparr>audioContext = Some cs, audioQueue = [], isPlaying = False, rendering = [],
      started = [], console = [], uncaught = []\<rparr>"

definition initialize :: "AudioPlayer \<Rightarrow> AudioPlayer" where
  "initialize p =
     (if audioContext p = Some Suspended then p\<lparr>audioContext := Some Running\<rparr> else p)"

text \<open>
  \<open>atob\<close> is the browser's base64 decoder; it is a parameter of the model
  (\<open>None\<close> when it throws). The bytes of the binary string become the \<open>ArrayBuffer\<close>.
\<close>

definition base64ToArrayBuffer ::
  "(string \<Rightarrow> 8 word list option) \<Rightarrow> string \<Rightarrow> js_error + 8 word list" where
  "base64ToArrayBuffer atob base64 =
     (case atob base64 of None \<Rightarrow> Inl InvalidCharacterError | Some bytes \<Rightarrow> Inr bytes)"

text \<open>\<open>new Int16Array(arrayBuffer)\<close>: little-endian pairs of bytes.\<close>

fun int16_pairs :: "8 word list \<Rightarrow> 16 word list" where
  "int16_pairs (lo # hi # bs) = word_cat hi lo # int16_pairs bs"
| "int16_pairs _ = []"

definition Int16Array :: "8 word list \<Rightarrow> js_error + 16 word list" where
  "Int16Array arrayBuffer =
     (if odd (length arrayBuffer) then Inl RangeError else Inr (int16_pairs arrayBuffer))"

text \<open>
  \<open>createBuffer(numberOfChannels, length, sampleRate)\<close> gives silent channels, and raises
  \<open>NotSupportedError\<close> on a zero argument (the upper limits of the nominal ranges are
  not modelled: the one call site passes 1 channel and 24000 Hz).
\<close>

definition createBuffer :: "nat \<Rightarrow> nat \<Rightarrow> nat \<Rightarrow> js_error + AudioBuffer" where
  "createBuffer nch len rate =
     (if nch = 0 \<or> len = 0 \<or> rate = 0 then Inl NotSupportedError
      else Inr \<lparr>numberOfChannels = nch, sampleRate = rate,
                channelData = replicate nch (replicate len 0)\<rparr>)"

text \<open>
  \<open>floatData[i] = pcm16Data[i] / 32768.0\<close>. A 16-bit integer divided by \<open>2^15\<close> is exactly
  representable in a 32-bit float, so the stored sample is this quotient itself.
\<close>

definition pcm16_sample :: "16 word \<Rightarrow> real" where
  "pcm16_sample s = real_of_int (sint s) / 32768"

definition pcm16ToAudioBuffer ::
  "AudioPlayer \<Rightarrow> 8 word list \<Rightarrow> nat \<Rightarrow> nat \<Rightarrow> js_error + AudioBuffer" where
  "pcm16ToAudioBuffer p arrayBuffer rate nch =
     (if audioContext p = None then Inl NoAudioContext
      else case Int16Array arrayBuffer of
        Inl e \<Rightarrow> Inl e
      | Inr pcm16Data \<Rightarrow>
          (let floatData = map pcm16_sample pcm16Data
           in case createBuffer nch (length floatData) rate of
                Inl e \<Rightarrow> Inl e
              | Inr audioBuffer \<Rightarrow>
                  Inr (audioBuffer\<lparr>channelData := (channelData audioBuffer)[0 := floatData]\<rparr>)))"

text \<open>
  \<open>playNext\<close>: the flag and the \<open>shift()\<close> come before \<open>this.audioContext!\<close> is used, so a
  null context raises with both already done.
\<close>

definition playNext :: "AudioPlayer \<Rightarrow> js_error option \<times> AudioPlayer" where
  "playNext p =
     (if audioQueue p = [] then (None, p\<lparr>isPlaying := False\<rparr>)
      else
        (let buffer = hd (audioQueue p);
             p1 = p\<lparr>isPlaying := True, audioQueue := tl (audioQueue p)\<rparr>
         in case audioContext p1 of
              None \<Rightarrow> (Some TypeError, p1)
            | Some _ \<Rightarrow>
                (None, p1\<lparr>rendering := rendering p1 @ [buffer],
                           started := started p1 @ [buffer]\<rparr>)))"

definition audio_error :: "js_error \<Rightarrow> AudioPlayer \<Rightarrow> AudioPlayer" where
  "audio_error e p = p\<lparr>console := console p @ [(''Audio error:'', Some e)]\<rparr>"

text \<open>
  \<open>playChunk\<close>. Its awaits resolve in call order, so a call is one step of the model, taken
  where the decoded buffer is pushed.
\<close>

definition playChunk ::
  "(string \<Rightarrow> 8 word list option) \<Rightarrow> AudioPlayer \<Rightarrow> string \<Rightarrow> AudioPlayer" where
  "playChunk atob p audioBase64 =
     (if audioContext p = None
      then p\<lparr>console := console p @ [(''No audio context'', None)]\<rparr>
      else
        (let p0 = initialize p
         in case base64ToArrayBuffer atob audioBase64 of
              Inl e \<Rightarrow> audio_error e p0
            | Inr audioData \<Rightarrow>
                (case pcm16ToAudioBuffer p0 audioData 24000 1 of
                   Inl e \<Rightarrow> audio_error e p0
                 | Inr audioBuffer \<Rightarrow>
                     (let p1 = p0\<lparr>audioQueue := audioQueue p0 @ [audioBuffer]\<rparr>
                      in if \<not> isPlaying p1
                         then (case playNext p1 of
                                 (Some e, p2) \<Rightarrow> audio_error e p2
                               | (None, p2) \<Rightarrow> p2)
                         else p1))))"

text \<open>
  \<open>source.onended\<close> of the \<open>k\<close>-th rendering source: the source is done, and its handler
  calls \<open>playNext\<close> outside any \<open>try\<close>. An index with no rendering source is an event that
  cannot happen; it leaves the player alone.
\<close>

definition onended :: "AudioPlayer \<Rightarrow> nat \<Rightarrow> AudioPlayer" where
  "onended p k =
     (if k < length (rendering p)
      then (case playNext (p\<lparr>rendering := take k (rendering p) @ drop (Suc k) (rendering p)\<rparr>) of
              (Some e, p1) \<Rightarrow> p1\<lparr>uncaught := uncaught p1 @ [e]\<rparr>
            | (None, p1) \<Rightarrow> p1)
      else p)"

definition stopAll :: "AudioPlayer \<Rightarrow> AudioPlayer" where
  "stopAll p = p\<lparr>audioQueue := [], isPlaying := False\<rparr>"

text \<open>\<open>close\<close>: \<open>audioContext.close()\<close> releases the device, so nothing renders any more.\<close>

definition close :: "AudioPlayer \<Rightarrow> AudioPlayer" where
  "close p =
     (let p1 = stopAll p
      in case audioContext p1 of
           None \<Rightarrow> p1
         | Some _ \<Rightarrow> p1\<lparr>audioContext := None, rendering := []\<rparr>)"

datatype audio_event = PlayChunk string | SourceEnded nat | StopAll | Close

fun audio_step :: "(string \<Rightarrow> 8 word list option) \<Rightarrow> AudioPlayer \<Rightarrow> audio_event \<Rightarrow> AudioPlayer" where
  "audio_step atob p (PlayChunk c) = playChunk atob p c"
| "audio_step atob p (SourceEnded k) = onended p k"
| "audio_step atob p StopAll = stopAll p"
| "audio_step atob p Close = close p"

definition audio_run ::
  "(string \<Rightarrow> 8 word list option) \<Rightarrow> AudioPlayer \<Rightarrow> audio_event list \<Rightarrow> AudioPlayer" where
  "audio_run atob p es = foldl (audio_step atob) p es"

text \<open>What a chunk decodes to on a player that has its context.\<close>

definition decodeChunk :: "(string \<Rightarrow> 8 word list option) \<Rightarrow> string \<Rightarrow> AudioBuffer option" where
  "decodeChunk atob c =
     (case base64ToArrayBuffer atob c of
        Inl e \<Rightarrow> None
      | Inr audioData \<Rightarrow>
          (case pcm16ToAudioBuffer (new_AudioPlayer Running) audioData 24000 1 of
             Inl e \<Rightarrow> None
           | Inr b \<Rightarrow> Some b))"

fun chunks_of :: "audio_event list \<Rightarrow> string list" where
  "chunks_of [] = []"
| "chunks_of (PlayChunk c # es) = c # chunks_of es"
| "chunks_of (_ # es) = chunks_of es"

fun plays_only :: "audio_event \<Rightarrow> bool" where
  "plays_only (PlayChunk c) = True"
| "plays_only (SourceEnded k) = True"
| "plays_only _ = False"

text \<open>
  Every source ends in turn, as often as there are buffers in the queue plus the one that
  may be rendering.
\<close>

definition run_to_silence :: "(string \<Rightarrow> 8 word list option) \<Rightarrow> AudioPlayer \<Rightarrow> AudioPlayer" where
  "run_to_silence atob p =
     audio_run atob p (replicate (Suc (length (audioQueue p))) (SourceEnded 0))"

text \<open>
  The logical output stream of a player: what it has started, then what it still holds.
  \<open>player_inv\<close> is the invariant of a player that is only fed chunks and end-of-source
  events.
\<close>

definition stream_of :: "AudioPlayer \<Rightarrow> AudioBuffer list" where
  "stream_of p = started p @ audioQueue p"

definition player_inv :: "AudioPlayer \<Rightarrow> bool" where
  "player_inv p \<longleftrightarrow>
     audioContext p \<noteq> None \<and> (isPlaying p \<longleftrightarrow> rendering p \<noteq> []) \<and>
     length (rendering p) \<le> 1 \<and> (audioQueue p \<noteq> [] \<longrightarrow> isPlaying p) \<and>
     uncaught p = [] \<and>
     (rendering p \<noteq> [] \<longrightarrow> started p \<noteq> [] \<and> rendering p = [last (started p)])"


section \<open>Session hook (hooks/useVoiceInterview.ts)\<close>

datatype status = Connecting | Ready | Active | Ended

record VoiceInterviewState =
  status :: status
  currentQuestion :: string
  questionIndex :: int
  aiSpeaking :: bool
  interviewId :: "int option"

text \<open>The inbound messages, by their \<open>type\<close> field; \<open>Unknown\<close> is any other type.\<close>

datatype message =
    ready
  | question string int
  | ai_audio string
  | ai_transcript_delta string
  | ai_done_speaking
  | ended "int option"
  | error string
  | Unknown string

datatype out_message = response_complete string | end_interview

datatype readyState = CONNECTING | OPEN | CLOSING | CLOSED

text \<open>
  The console lines, one constructor per \<open>console.log\<close>/\<open>console.error\<close> call of the hook;
  \<open>Sending\<close> is the line that the interview screen's silence timer writes before it calls
  \<open>sendTranscript\<close>.
\<close>

datatype hook_line =
    InterviewReady
  | QuestionStarting int
  | AudioChunkReceived
  | PlayingAudioChunk
  | AudioPlayed
  | NoAudioPlayerInstance
  | AIFinishedSpeaking
  | InterviewEnded
  | InterviewError string
  | UnknownMessageType string
  | SendingTranscript string
  | Sending string

text \<open>
  \<open>state_current\<close> is \<open>state.current\<close>; \<open>ws\<close> is the socket that \<open>sendTranscript\<close> sees, with
  its \<open>readyState\<close>; \<open>sent\<close> lists what was handed to \<open>ws.send\<close>; \<open>hook_console\<close> is the
  browser console.
\<close>

record hook =
  state_current :: VoiceInterviewState
  audioPlayerRef :: "AudioPlayer option"
  ws :: "readyState option"
  sent :: "out_message list"
  hook_console :: "hook_line list"

definition initial_state :: VoiceInterviewState where
  "initial_state =
     \<lparr>status = Connecting, currentQuestion = [], questionIndex = 0, aiSpeaking = False,
      interviewId = None\<rparr>"

definition say :: "hook_line \<Rightarrow> hook \<Rightarrow> hook" where
  "say l h = h\<lparr>hook_console := hook_console h @ [l]\<rparr>"

definition handleMessage :: "(string \<Rightarrow> 8 word list option) \<Rightarrow> hook \<Rightarrow> message \<Rightarrow> hook" where
  "handleMessage atob h m =
     (case m of
        ready \<Rightarrow>
          (say InterviewReady h)\<lparr>state_current := (state_current h)\<lparr>status := Ready\<rparr>\<rparr>
      | question text index \<Rightarrow>
          (say (QuestionStarting index) h)
            \<lparr>state_current := (state_current h)
               \<lparr>status := Active, currentQuestion := [], questionIndex := index,
                aiSpeaking := True\<rparr>\<rparr>
      | ai_audio audio \<Rightarrow>
          (case audioPlayerRef h of
             Some player \<Rightarrow>
               say AudioPlayed
                 ((say PlayingAudioChunk (say AudioChunkReceived h))
                    \<lparr>audioPlayerRef := Some (playChunk atob player audio)\<rparr>)
           | None \<Rightarrow> say NoAudioPlayerInstance (say AudioChunkReceived h))
      | ai_transcript_delta text \<Rightarrow>
          h\<lparr>state_current := (state_current h)
               \<lparr>currentQuestion := currentQuestion (state_current h) @ text\<rparr>\<rparr>
      | ai_done_speaking \<Rightarrow>
          (say AIFinishedSpeaking h)\<lparr>state_current := (state_current h)\<lparr>aiSpeaking := False\<rparr>\<rparr>
      | ended interview_id \<Rightarrow>
          (say InterviewEnded h)
            \<lparr>state_current := (state_current h)\<lparr>status := Ended, interviewId := interview_id\<rparr>\<rparr>
      | error text \<Rightarrow> say (InterviewError text) h
      | Unknown ty \<Rightarrow> say (UnknownMessageType ty) h)"

text \<open>\<open>sendTranscript\<close>: the guard has no \<open>else\<close>.\<close>

definition sendTranscript :: "hook \<Rightarrow> string \<Rightarrow> hook" where
  "sendTranscript h transcript =
     (if ws h = Some OPEN
      then (say (SendingTranscript (take 50 transcript)) h)
             \<lparr>sent := sent h @ [response_complete transcript]\<rparr>
      else h)"

definition endInterview :: "hook \<Rightarrow> hook" where
  "endInterview h = (if ws h = Some OPEN then h\<lparr>sent := sent h @ [end_interview]\<rparr> else h)"

definition hook_cleanup :: "hook \<Rightarrow> hook" where
  "hook_cleanup h =
     (let h1 = (case audioPlayerRef h of
                  Some player \<Rightarrow> h\<lparr>audioPlayerRef := None\<rparr>
                | None \<Rightarrow> h)
      in h1\<lparr>ws := None\<rparr>)"

text \<open>The hook after \<open>connect\<close>, once the socket has opened: nothing received yet.\<close>

definition connected_hook :: hook where
  "connected_hook =
     \<lparr>state_current = initial_state, audioPlayerRef = Some (new_AudioPlayer Suspended),
      ws = Some OPEN, sent = [], hook_console = []\<rparr>"

section \<open>Turn completion in the interview screen (interview\_layout.tsx, VoiceInterviewPage)\<close>

text \<open>
  \<open>String.prototype.trim\<close> on 8-bit text: the white space and line terminators below
  \<open>U+0100\<close> are tab, line feed, vertical tab, form feed, carriage return, space and the
  no-break space \<open>U+00A0\<close>.
\<close>

definition is_space :: "char \<Rightarrow> bool" where
  "is_space c \<longleftrightarrow>
     c \<in> set [CHR '' '', CHR 0x09, CHR 0x0A, CHR 0x0B, CHR 0x0C, CHR 0x0D, CHR 0xA0]"

definition trim :: "string \<Rightarrow> string" where
  "trim s = rev (dropWhile is_space (rev (dropWhile is_space s)))"

text \<open>
  \<open>silenceTimerRef\<close> is the time in milliseconds at which the pending timeout is due, if one
  is pending.
\<close>

record layout =
  voiceInterview :: hook
  transcriptBufferRef :: string
  silenceTimerRef :: "nat option"
  candidateSpeaking :: bool
  recorder_timeline :: "timeline_event list"

definition layout_fillers :: "string \<Rightarrow> real \<Rightarrow> timeline_event list \<Rightarrow> timeline_event list" where
  "layout_fillers text ts timeline =
     foldl (\<lambda>acc w. if strip_punct w \<in> set fillerWords
                      then logEvent acc (filler_event ts (strip_punct w)) else acc)
       timeline (split_space (toLowerCase text))"

text \<open>\<open>handleTranscript\<close> at time \<open>now\<close> (milliseconds since the recording started).\<close>

definition handleTranscript :: "nat \<Rightarrow> layout \<Rightarrow> string \<Rightarrow> bool \<Rightarrow> layout" where
  "handleTranscript now l text isFinal =
     (if isFinal
      then l\<lparr>transcriptBufferRef := transcriptBufferRef l @ text @ '' '',
             recorder_timeline := layout_fillers text (real now / 1000) (recorder_timeline l),
             silenceTimerRef := Some (now + 2500)\<rparr>
      else l)"

text \<open>
  The body of the timeout: it runs when the pending timer is due. It logs the buffer as it
  is, then calls \<open>sendTranscript\<close> with the trimmed buffer, then clears the buffer.
\<close>

definition silence_elapsed :: "layout \<Rightarrow> layout" where
  "silence_elapsed l =
     (let l0 = l\<lparr>silenceTimerRef := None\<rparr>
      in if trim (transcriptBufferRef l0) \<noteq> []
         then l0\<lparr>voiceInterview :=
                   sendTranscript (say (Sending (transcriptBufferRef l0)) (voiceInterview l0))
                     (trim (transcriptBufferRef l0)),
                 transcriptBufferRef := [],
                 candidateSpeaking := False\<rparr>
         else l0)"

text \<open>The component's own \<open>cleanup\<close> (unmount) is the one place that clears the timer.\<close>

definition layout_cleanup :: "layout \<Rightarrow> layout" where
  "layout_cleanup l =
     l\<lparr>silenceTimerRef := None, voiceInterview := hook_cleanup (voiceInterview l)\<rparr>"

datatype layout_event =
    Transcript string bool
  | Message message
  | Unmount

text \<open>Time moves to \<open>now\<close>: a timer that is due by then fires first.\<close>

definition advance :: "nat \<Rightarrow> layout \<Rightarrow> layout" where
  "advance now l =
     (case silenceTimerRef l of
        Some due \<Rightarrow> if due \<le> now then silence_elapsed l else l
      | None \<Rightarrow> l)"

fun layout_step :: "(string \<Rightarrow> 8 word list option) \<Rightarrow> layout \<Rightarrow> nat \<times> layout_event \<Rightarrow> layout" where
  "layout_step atob l (now, Transcript text isFinal) = handleTranscript now (advance now l) text isFinal"
| "layout_step atob l (now, Message m) =
     (advance now l)\<lparr>voiceInterview := handleMessage atob (voiceInterview (advance now l)) m\<rparr>"
| "layout_step atob l (now, Unmount) = layout_cleanup (advance now l)"

definition layout_run ::
  "(string \<Rightarrow> 8 word list option) \<Rightarrow> layout \<Rightarrow> (nat \<times> layout_event) list \<Rightarrow> layout" where
  "layout_run atob l es = foldl (layout_step atob) l es"

definition connected_layout :: layout where
  "connected_layout =
     \<lparr>voiceInterview = connected_hook,
      transcriptBufferRef = [], silenceTimerRef = None, candidateSpeaking = False,
      recorder_timeline = []\<rparr>"

section \<open>Turn completion in the interview page (app/interview/[sessionId]/page.tsx)\<close>

text \<open>
  \<open>finalTranscript\<close> is the variable that \<open>recognition.onresult\<close> closes over, and
  \<open>page_ws\<close> is the \<open>ws\<close> that the same closure reads. The handler is installed by
  \<open>initSpeechRecognition\<close>, which the mount effect (dependency list \<open>[]\<close>) calls once, from
  the first render; there \<open>ws\<close> is the initial value of \<open>useState<WebSocket | null>(null)\<close>.
  \<open>setWs(websocket)\<close> gives later renders a new binding and leaves this one alone, so no
  step of the model writes \<open>page_ws\<close>.
\<close>

record page =
  finalTranscript :: string
  page_silenceTimer :: "nat option"
  page_ws :: "readyState option"
  page_sent :: "out_message list"
  page_candidateSpeaking :: bool
  timelineRef :: "timeline_event list"
  page_uncaught :: "string list"

definition mounted_page :: page where
  "mounted_page =
     \<lparr>finalTranscript = [], page_silenceTimer = None, page_ws = None, page_sent = [],
      page_candidateSpeaking = False, timelineRef = [], page_uncaught = []\<rparr>"

text \<open>
  The loop of \<open>onresult\<close> over \<open>event.results\<close> from \<open>resultIndex\<close> on; the second component
  of the accumulator is \<open>interimTranscript\<close>.
\<close>

fun onresult_loop :: "real \<Rightarrow> (string \<times> bool) list \<Rightarrow> page \<times> string \<Rightarrow> page \<times> string" where
  "onresult_loop ts [] acc = acc"
| "onresult_loop ts ((transcript, isFinal) # results) (pg, interimTranscript) =
     (if isFinal
      then onresult_loop ts results
             (pg\<lparr>finalTranscript := finalTranscript pg @ transcript @ '' '',
                 timelineRef := detectFillerWords transcript ts (timelineRef pg)\<rparr>,
              interimTranscript)
      else onresult_loop ts results (pg, interimTranscript @ transcript))"

definition onresult :: "nat \<Rightarrow> page \<Rightarrow> (string \<times> bool) list \<Rightarrow> page" where
  "onresult now pg results =
     (case onresult_loop (real now / 1000) results (pg, []) of
        (pg1, interimTranscript) \<Rightarrow>
          pg1\<lparr>page_silenceTimer := Some (now + 2500),
               page_candidateSpeaking := (interimTranscript \<noteq> [])\<rparr>)"

text \<open>
  The body of the timeout. \<open>ws.send\<close> raises on a socket that is still connecting, before
  the buffer is cleared; on a closing or closed socket it discards the data.
\<close>

definition page_timeout :: "page \<Rightarrow> page" where
  "page_timeout pg =
     (let pg0 = pg\<lparr>page_silenceTimer := None\<rparr>
      in if trim (finalTranscript pg0) \<noteq> [] \<and> page_ws pg0 \<noteq> None
         then (case page_ws pg0 of
                 Some CONNECTING \<Rightarrow> pg0\<lparr>page_uncaught := page_uncaught pg0 @ [''InvalidStateError'']\<rparr>
               | Some OPEN \<Rightarrow>
                   pg0\<lparr>page_sent := page_sent pg0 @ [response_complete (trim (finalTranscript pg0))],
                       finalTranscript := []\<rparr>
               | _ \<Rightarrow> pg0\<lparr>finalTranscript := []\<rparr>)
         else pg0)"

definition page_advance :: "nat \<Rightarrow> page \<Rightarrow> page" where
  "page_advance now pg =
     (case page_silenceTimer pg of
        Some due \<Rightarrow> if due \<le> now then page_timeout pg else pg
      | None \<Rightarrow> pg)"

definition page_step :: "page \<Rightarrow> nat \<times> (string \<times> bool) list \<Rightarrow> page" where
  "page_step pg ev = onresult (fst ev) (page_advance (fst ev) pg) (snd ev)"

definition page_run :: "page \<Rightarrow> (nat \<times> (string \<times> bool) list) list \<Rightarrow> page" where
  "page_run pg evs = foldl page_step pg evs"

section \<open>Speech capture over the browser recognizer (the \<open>useSpeechRecognition\<close> hook with \<open>MAX_RESTARTS\<close>)\<close>

text \<open>
  \<open>recognizing\<close> says that the recognizer has been started and has not ended yet;
  \<open>restart_timers\<close> holds the due times of the pending \<open>setTimeout\<close> calls of \<open>onend\<close> (their
  handles are not kept); \<open>sessions_started\<close> counts the \<open>recognition.start()\<close> calls that
  began a capture session; \<open>onend_set\<close> turns false when the unmount cleanup sets
  \<open>recognition.onend = null\<close>.
\<close>

record speech_hook =
  enabledRef :: bool
  restartAttempts :: nat
  isListening :: bool
  speech_error :: "string option"
  onend_set :: bool
  recognizing :: bool
  restart_timers :: "nat list"
  sessions_started :: nat

definition MAX_RESTARTS :: nat where
  "MAX_RESTARTS = 3"

text \<open>
  \<open>recognition.start()\<close> inside \<open>try\<close>: on a recognizer that is already started it raises
  and the \<open>catch\<close> drops the error. \<open>recognition.stop()\<close> is a request; the end of the
  session is the \<open>onend\<close> event.
\<close>

definition try_start :: "speech_hook \<Rightarrow> speech_hook" where
  "try_start s =
     (if recognizing s then s
      else s\<lparr>recognizing := True, sessions_started := sessions_started s + 1\<rparr>)"

text \<open>The three effects of the first commit, for the initial value of \<open>enabled\<close>.\<close>

definition speech_mount :: "bool \<Rightarrow> speech_hook" where
  "speech_mount enabled =
     (let s0 = \<lparr>enabledRef = enabled, restartAttempts = 0, isListening = False,
                speech_error = None, onend_set = True, recognizing = False,
                restart_timers = [], sessions_started = 0\<rparr>;
          s1 = (if enabled then try_start s0 else s0)
      in if enabled then try_start (s1\<lparr>restartAttempts := 0\<rparr>) else s1)"

text \<open>A change of \<open>enabled\<close>: the effect that copies it to the ref, then the control effect.\<close>

definition set_enabled :: "bool \<Rightarrow> speech_hook \<Rightarrow> speech_hook" where
  "set_enabled enabled s =
     (let s1 = s\<lparr>enabledRef := enabled\<rparr>
      in if enabled then try_start (s1\<lparr>restartAttempts := 0\<rparr>) else s1)"

text \<open>The body of \<open>recognition.onend\<close>, at time \<open>now\<close>.\<close>

definition onend :: "nat \<Rightarrow> speech_hook \<Rightarrow> speech_hook" where
  "onend now s =
     (let s1 = s\<lparr>isListening := False\<rparr>
      in if \<not> enabledRef s1 then s1
         else if restartAttempts s1 \<ge> MAX_RESTARTS
              then s1\<lparr>speech_error := Some ''Speech recognition failed''\<rparr>
              else s1\<lparr>restartAttempts := restartAttempts s1 + 1,
                      restart_timers := restart_timers s1 @ [now + 1500]\<rparr>)"

text \<open>The recognizer ends: the handler runs if it is still installed.\<close>

definition recognition_ended :: "nat \<Rightarrow> speech_hook \<Rightarrow> speech_hook" where
  "recognition_ended now s =
     (if recognizing s
      then (let s1 = s\<lparr>recognizing := False\<rparr> in if onend_set s1 then onend now s1 else s1)
      else s)"

definition speech_unmount :: "speech_hook \<Rightarrow> speech_hook" where
  "speech_unmount s = s\<lparr>onend_set := False\<rparr>"

definition speech_stop :: "speech_hook \<Rightarrow> speech_hook" where
  "speech_stop s = s\<lparr>enabledRef := False\<rparr>"

datatype speech_event =
    SetEnabled bool
  | RecognitionStarted
  | RecognitionEnded
  | RecognitionError string
  | UnmountHook
  | StopCalled

text \<open>Time moves to \<open>now\<close>: every restart timer due by then runs \<open>recognition.start()\<close>.\<close>

definition speech_advance :: "nat \<Rightarrow> speech_hook \<Rightarrow> speech_hook" where
  "speech_advance now s =
     foldl (\<lambda>acc due. try_start acc)
       (s\<lparr>restart_timers := filter (\<lambda>due. now < due) (restart_timers s)\<rparr>)
       (filter (\<lambda>due. due \<le> now) (restart_timers s))"

fun speech_step :: "speech_hook \<Rightarrow> nat \<times> speech_event \<Rightarrow> speech_hook" where
  "speech_step s (now, SetEnabled b) = set_enabled b (speech_advance now s)"
| "speech_step s (now, RecognitionStarted) = (speech_advance now s)\<lparr>isListening := True\<rparr>"
| "speech_step s (now, RecognitionEnded) = recognition_ended now (speech_advance now s)"
| "speech_step s (now, RecognitionError e) = (speech_advance now s)\<lparr>speech_error := Some e\<rparr>"
| "speech_step s (now, UnmountHook) = speech_unmount (speech_advance now s)"
| "speech_step s (now, StopCalled) = speech_stop (speech_advance now s)"

definition speech_run :: "speech_hook \<Rightarrow> (nat \<times> speech_event) list \<Rightarrow> speech_hook" where
  "speech_run s evs = foldl speech_step s evs"

section \<open>Speech capture over the cloud SDK (hooks/useSpeechRecognition.ts)\<close>

datatype restart_reason = network | service | normal

text \<open>
  \<open>loadAzureSpeechSDK\<close> sees one of four situations: no \<open>script\<close> element yet; the element
  is there and still loading; the element is there, its \<open>load\<close> or \<open>error\<close> event has fired,
  and \<open>window.SpeechSDK\<close> is not set; or \<open>window.SpeechSDK\<close> is set.
\<close>

datatype sdk_script = NoScript | ScriptLoading | ScriptFailed | SdkLoaded

text \<open>
  The refs and state of the hook, and: \<open>speech_config\<close>, whether the key and region are
  configured; \<open>loads_waiting\<close>, the calls of \<open>startRecognition\<close> suspended in
  \<open>await loadAzureSpeechSDK()\<close> on a script that is loading; \<open>loads_stuck\<close>, the calls
  suspended on a script whose events have already fired, which never resume;
  \<open>starts_pending\<close>, the calls suspended on \<open>startContinuousRecognitionAsync\<close>;
  \<open>recognitions_started\<close>, how often \<open>startContinuousRecognitionAsync\<close> was called.
\<close>

record sdk_hook =
  sdk_enabledRef :: bool
  manuallyStoppedRef :: bool
  restartTimeoutRef :: "nat option"
  restartAttemptRef :: nat
  sdk_isListening :: bool
  sdk_error :: "string option"
  recognizerRef :: bool
  speech_config :: bool
  script :: sdk_script
  loads_waiting :: nat
  loads_stuck :: nat
  starts_pending :: nat
  recognitions_started :: nat

definition clearRestartTimer :: "sdk_hook \<Rightarrow> sdk_hook" where
  "clearRestartTimer s = s\<lparr>restartTimeoutRef := None\<rparr>"

definition stopAndDisposeRecognizer :: "sdk_hook \<Rightarrow> sdk_hook" where
  "stopAndDisposeRecognizer s = s\<lparr>recognizerRef := False\<rparr>"

definition scheduleRestart :: "nat \<Rightarrow> restart_reason \<Rightarrow> sdk_hook \<Rightarrow> sdk_hook" where
  "scheduleRestart now reason s =
     (if \<not> sdk_enabledRef s \<or> manuallyStoppedRef s then s
      else if restartTimeoutRef s \<noteq> None then s
      else
        (let attempt = restartAttemptRef s + 1;
             delayMs = (if reason = network \<or> reason = service
                        then min 30000 (1000 * 2 ^ (min attempt 5)) else 1000)
         in s\<lparr>restartAttemptRef := attempt, restartTimeoutRef := Some (now + delayMs)\<rparr>))"

text \<open>The \<open>catch\<close> of \<open>startRecognition\<close>, with the message of the error.\<close>

definition catch_start :: "nat \<Rightarrow> string \<Rightarrow> sdk_hook \<Rightarrow> sdk_hook" where
  "catch_start now msg s =
     scheduleRestart now service (s\<lparr>sdk_isListening := False, sdk_error := Some msg\<rparr>)"

text \<open>
  \<open>startRecognition\<close> once the SDK is at hand: it makes the recognizer, stores it and calls
  \<open>startContinuousRecognitionAsync\<close>. It does not look at the flags again.
\<close>

definition create_and_start :: "sdk_hook \<Rightarrow> sdk_hook" where
  "create_and_start s =
     s\<lparr>recognizerRef := True, recognitions_started := recognitions_started s + 1,
       starts_pending := starts_pending s + 1\<rparr>"

text \<open>\<open>startRecognition\<close>, up to its first \<open>await\<close> that has to wait.\<close>

definition startRecognition :: "nat \<Rightarrow> sdk_hook \<Rightarrow> sdk_hook" where
  "startRecognition now s =
     (if \<not> sdk_enabledRef s \<or> manuallyStoppedRef s then s
      else
        (let s1 = stopAndDisposeRecognizer (clearRestartTimer s)
         in if \<not> speech_config s1
            then s1\<lparr>sdk_error := Some ''Missing Azure Speech config. Set NEXT_PUBLIC_AZURE_SPEECH_KEY and NEXT_PUBLIC_AZURE_SPEECH_REGION.''\<rparr>
            else (case script s1 of
                    SdkLoaded \<Rightarrow> create_and_start s1
                  | NoScript \<Rightarrow> s1\<lparr>script := ScriptLoading, loads_waiting := loads_waiting s1 + 1\<rparr>
                  | ScriptLoading \<Rightarrow> s1\<lparr>loads_waiting := loads_waiting s1 + 1\<rparr>
                  | ScriptFailed \<Rightarrow> s1\<lparr>loads_stuck := loads_stuck s1 + 1\<rparr>)))"

text \<open>
  The script's \<open>load\<close> or \<open>error\<close> event: every waiting call resumes, the one that made the
  element first. With the SDK each goes on to \<open>create_and_start\<close>; without it each throws
  into its \<open>catch\<close>.
\<close>

datatype script_result = LoadedWithSdk | LoadedWithoutSdk | LoadError

definition script_settled :: "nat \<Rightarrow> script_result \<Rightarrow> sdk_hook \<Rightarrow> sdk_hook" where
  "script_settled now result s =
     (if script s \<noteq> ScriptLoading then s
      else
        (let n = loads_waiting s; s0 = s\<lparr>loads_waiting := 0\<rparr>
         in case result of
              LoadedWithSdk \<Rightarrow> (create_and_start ^^ n) (s0\<lparr>script := SdkLoaded\<rparr>)
            | LoadedWithoutSdk \<Rightarrow>
                foldl (\<lambda>acc msg. catch_start now msg acc) (s0\<lparr>script := ScriptFailed\<rparr>)
                  (take n (''Azure Speech SDK loaded but SpeechSDK is undefined.''
                           # replicate n ''Azure Speech SDK script loaded, but SpeechSDK is unavailable.''))
            | LoadError \<Rightarrow>
                foldl (\<lambda>acc msg. catch_start now msg acc) (s0\<lparr>script := ScriptFailed\<rparr>)
                  (replicate n ''Failed to load Azure Speech SDK script.'')))"

text \<open>
  \<open>startContinuousRecognitionAsync\<close> settles: on success the call sets \<open>isListening\<close>, on
  failure it runs the \<open>catch\<close>. With no call pending neither can happen.
\<close>

definition start_resolved :: "sdk_hook \<Rightarrow> sdk_hook" where
  "start_resolved s =
     (if starts_pending s = 0 then s
      else s\<lparr>starts_pending := starts_pending s - 1, sdk_isListening := True\<rparr>)"

definition start_rejected :: "nat \<Rightarrow> string \<Rightarrow> sdk_hook \<Rightarrow> sdk_hook" where
  "start_rejected now msg s =
     (if starts_pending s = 0 then s
      else catch_start now msg (s\<lparr>starts_pending := starts_pending s - 1\<rparr>))"

definition sessionStarted :: "sdk_hook \<Rightarrow> sdk_hook" where
  "sessionStarted s = s\<lparr>sdk_isListening := True, sdk_error := None, restartAttemptRef := 0\<rparr>"

definition sessionStopped :: "nat \<Rightarrow> sdk_hook \<Rightarrow> sdk_hook" where
  "sessionStopped now s =
     (let s1 = s\<lparr>sdk_isListening := False\<rparr>
      in if \<not> sdk_enabledRef s1 \<or> manuallyStoppedRef s1 then s1
         else scheduleRestart now normal s1)"

datatype cancellation = EndOfStream | CancelError | CancelledByUser

text \<open>\<open>haystack.includes(needle)\<close>\<close>

fun includes_str :: "string \<Rightarrow> string \<Rightarrow> bool" where
  "includes_str [] needle = (needle = [])"
| "includes_str (c # cs) needle =
     (take (length needle) (c # cs) = needle \<or> includes_str cs needle)"

definition canceled :: "nat \<Rightarrow> cancellation \<Rightarrow> string \<Rightarrow> sdk_hook \<Rightarrow> sdk_hook" where
  "canceled now reason errorDetails s =
     (let s1 = s\<lparr>sdk_isListening := False\<rparr>
      in if reason = EndOfStream \<and> \<not> manuallyStoppedRef s1 then scheduleRestart now normal s1
         else
           (let s2 = s1\<lparr>sdk_error := Some errorDetails\<rparr>
            in if \<not> sdk_enabledRef s2 \<or> manuallyStoppedRef s2 then s2
               else if reason = CancelError
                    then (if includes_str (toLowerCase errorDetails) ''network''
                             \<or> includes_str (toLowerCase errorDetails) ''connection''
                          then scheduleRestart now network s2
                          else scheduleRestart now service s2)
                    else s2))"

text \<open>The cleanup of the \<open>[enabled]\<close> effect, which is also what \<open>stop\<close> does.\<close>

definition sdk_cleanup :: "sdk_hook \<Rightarrow> sdk_hook" where
  "sdk_cleanup s =
     (stopAndDisposeRecognizer (clearRestartTimer (s\<lparr>manuallyStoppedRef := True\<rparr>)))
       \<lparr>sdk_isListening := False\<rparr>"

text \<open>The body of the \<open>[enabled]\<close> effect.\<close>

definition sdk_effect :: "nat \<Rightarrow> bool \<Rightarrow> sdk_hook \<Rightarrow> sdk_hook" where
  "sdk_effect now enabled s =
     (let s1 = s\<lparr>manuallyStoppedRef := \<not> enabled\<rparr>
      in if enabled then startRecognition now s1
         else (stopAndDisposeRecognizer (clearRestartTimer s1))\<lparr>sdk_isListening := False\<rparr>)"

text \<open>
  The first commit, for the initial value of \<open>enabled\<close> and a given configuration: the refs
  as \<open>useRef\<close> makes them, then the effect.
\<close>

definition sdk_mount :: "nat \<Rightarrow> bool \<Rightarrow> bool \<Rightarrow> sdk_hook" where
  "sdk_mount now enabled config =
     sdk_effect now enabled
       \<lparr>sdk_enabledRef = enabled, manuallyStoppedRef = False, restartTimeoutRef = None,
        restartAttemptRef = 0, sdk_isListening = False, sdk_error = None,
        recognizerRef = False, speech_config = config, script = NoScript, loads_waiting = 0,
        loads_stuck = 0, starts_pending = 0, recognitions_started = 0\<rparr>"

text \<open>
  A change of \<open>enabled\<close>: the cleanup of the previous run, the effect that copies the value
  to the ref, then the body of the \<open>[enabled]\<close> effect.
\<close>

definition sdk_set_enabled :: "nat \<Rightarrow> bool \<Rightarrow> sdk_hook \<Rightarrow> sdk_hook" where
  "sdk_set_enabled now enabled s =
     sdk_effect now enabled ((sdk_cleanup s)\<lparr>sdk_enabledRef := enabled\<rparr>)"

text \<open>The restart timeout fires.\<close>

definition restart_fired :: "nat \<Rightarrow> sdk_hook \<Rightarrow> sdk_hook" where
  "restart_fired now s = startRecognition now (s\<lparr>restartTimeoutRef := None\<rparr>)"

datatype sdk_event =
    EnabledChanged bool
  | ScriptSettled script_result
  | StartResolved
  | StartRejected string
  | SessionStarted
  | SessionStopped
  | Canceled cancellation string
  | SdkUnmount

text \<open>Time moves to \<open>now\<close>: a restart that is due by then fires at its due time.\<close>

definition sdk_advance :: "nat \<Rightarrow> sdk_hook \<Rightarrow> sdk_hook" where
  "sdk_advance now s =
     (case restartTimeoutRef s of
        Some due \<Rightarrow> if due \<le> now then restart_fired due s else s
      | None \<Rightarrow> s)"

fun sdk_step :: "sdk_hook \<Rightarrow> nat \<times> sdk_event \<Rightarrow> sdk_hook" where
  "sdk_step s (now, EnabledChanged b) = sdk_set_enabled now b (sdk_advance now s)"
| "sdk_step s (now, ScriptSettled r) = script_settled now r (sdk_advance now s)"
| "sdk_step s (now, StartResolved) = start_resolved (sdk_advance now s)"
| "sdk_step s (now, StartRejected msg) = start_rejected now msg (sdk_advance now s)"
| "sdk_step s (now, SessionStarted) = sessionStarted (sdk_advance now s)"
| "sdk_step s (now, SessionStopped) = sessionStopped now (sdk_advance now s)"
| "sdk_step s (now, Canceled reason details) = canceled now reason details (sdk_advance now s)"
| "sdk_step s (now, SdkUnmount) = sdk_cleanup (sdk_advance now s)"

text \<open>The restart timer after each event of a run, in order.\<close>

fun sdk_timers :: "sdk_hook \<Rightarrow> (nat \<times> sdk_event) list \<Rightarrow> nat option list" where
  "sdk_timers s [] = []"
| "sdk_timers s (ev # evs) = restartTimeoutRef (sdk_step s ev) # sdk_timers (sdk_step s ev) evs"

definition sdk_run :: "sdk_hook \<Rightarrow> (nat \<times> sdk_event) list \<Rightarrow> sdk_hook" where
  "sdk_run s evs = foldl sdk_step s evs"

section \<open>Audio playback: queueing and decoding\<close>

lemma decode_context_irrelevant:
  "audioContext p \<noteq> None \<Longrightarrow>
   pcm16ToAudioBuffer p d rate nch = pcm16ToAudioBuffer (new_AudioPlayer Running) d rate nch"
  by (auto simp: pcm16ToAudioBuffer_def new_AudioPlayer_def)

lemma initialize_context: "audioContext p \<noteq> None \<Longrightarrow> audioContext (initialize p) \<noteq> None"
  by (simp add: initialize_def)

lemma initialize_fields [simp]:
  "audioQueue (initialize p) = audioQueue p" "isPlaying (initialize p) = isPlaying p"
  "rendering (initialize p) = rendering p" "started (initialize p) = started p"
  "console (initialize p) = console p" "uncaught (initialize p) = uncaught p"
  by (simp_all add: initialize_def)

lemma playChunk_undecodable:
  assumes "audioContext p \<noteq> None" "decodeChunk atob c = None"
  shows "\<exists>e. playChunk atob p c = audio_error e (initialize p)"
  using assms initialize_context [OF assms(1)]
  by (auto simp: playChunk_def decodeChunk_def Let_def decode_context_irrelevant
           split: sum.splits)

lemma playChunk_decodable:
  assumes "audioContext p \<noteq> None" "decodeChunk atob c = Some b"
  shows "playChunk atob p c =
     (let p1 = (initialize p)\<lparr>audioQueue := audioQueue p @ [b]\<rparr>
      in if \<not> isPlaying p
         then (case playNext p1 of (Some e, p2) \<Rightarrow> audio_error e p2 | (None, p2) \<Rightarrow> p2)
         else p1)"
  using assms initialize_context [OF assms(1)]
  by (auto simp: playChunk_def decodeChunk_def Let_def decode_context_irrelevant
           split: sum.splits)

lemma inv_playChunk:
  assumes "player_inv p"
  shows "player_inv (playChunk atob p c) \<and>
         stream_of (playChunk atob p c) =
           stream_of p @ (case decodeChunk atob c of None \<Rightarrow> [] | Some b \<Rightarrow> [b])"
proof (cases "decodeChunk atob c")
  case None
  have ctx: "audioContext p \<noteq> None" using assms by (simp add: player_inv_def)
  obtain e where "playChunk atob p c = audio_error e (initialize p)"
    using playChunk_undecodable [OF ctx None] by blast
  then show ?thesis
    using assms None initialize_context [OF ctx]
    by (auto simp: player_inv_def stream_of_def audio_error_def)
next
  case (Some b)
  have ctx: "audioContext p \<noteq> None" using assms by (simp add: player_inv_def)
  show ?thesis
    using assms Some initialize_context [OF ctx]
    by (auto simp: playChunk_decodable [OF ctx Some] player_inv_def stream_of_def
                   playNext_def Let_def audio_error_def split: option.splits)
qed

lemma inv_onended:
  assumes "player_inv p"
  shows "player_inv (onended p k) \<and> stream_of (onended p k) = stream_of p"
proof (cases "k < length (rendering p)")
  case False
  then show ?thesis using assms by (simp add: onended_def)
next
  case True
  then have k: "k = 0" and r: "rendering p \<noteq> []" using assms by (auto simp: player_inv_def)
  show ?thesis
  proof (cases "audioQueue p")
    case Nil
    then show ?thesis using assms k r
      by (auto simp: onended_def playNext_def player_inv_def stream_of_def Let_def
               split: option.splits)
  next
    case (Cons b q)
    then show ?thesis using assms k r
      by (auto simp: onended_def playNext_def player_inv_def stream_of_def Let_def
               split: option.splits)
  qed
qed

lemma inv_new: "player_inv (new_AudioPlayer cs)" "stream_of (new_AudioPlayer cs) = []"
  by (simp_all add: player_inv_def new_AudioPlayer_def stream_of_def)

lemma inv_run:
  assumes "player_inv p" "\<forall>e \<in> set es. plays_only e"
  shows "player_inv (audio_run atob p es) \<and>
         stream_of (audio_run atob p es) = stream_of p @ List.map_filter (decodeChunk atob) (chunks_of es)"
  using assms
proof (induction es arbitrary: p)
  case Nil
  then show ?case by (simp add: audio_run_def)
next
  case (Cons e es)
  show ?case
  proof (cases e)
    case (PlayChunk c)
    have i: "player_inv (playChunk atob p c)" and
      s: "stream_of (playChunk atob p c) = stream_of p @ (case decodeChunk atob c of None \<Rightarrow> [] | Some b \<Rightarrow> [b])"
      using inv_playChunk [OF Cons.prems(1)] by auto
    have "\<forall>e \<in> set es. plays_only e" using Cons.prems(2) by simp
    from Cons.IH [OF i this] show ?thesis
      using PlayChunk s by (auto simp: audio_run_def split: option.splits)
  next
    case (SourceEnded k)
    have i: "player_inv (onended p k)" and s: "stream_of (onended p k) = stream_of p"
      using inv_onended [OF Cons.prems(1)] by auto
    have "\<forall>e \<in> set es. plays_only e" using Cons.prems(2) by simp
    from Cons.IH [OF i this] show ?thesis
      using SourceEnded s by (auto simp: audio_run_def)
  next
    case StopAll
    then show ?thesis using Cons.prems(2) by simp
  next
    case Close
    then show ?thesis using Cons.prems(2) by simp
  qed
qed

text \<open>When the rendering source ends, the head of the queue is started at once.\<close>

lemma onended_starts_next:
  assumes "player_inv p" "audioQueue p = b # q"
  shows "started (onended p 0) = started p @ [b] \<and> audioQueue (onended p 0) = q
         \<and> rendering (onended p 0) = [b] \<and> isPlaying (onended p 0)"
proof -
  from assms have "rendering p \<noteq> []" and len: "length (rendering p) \<le> 1"
    and c: "audioContext p \<noteq> None"
    by (auto simp: player_inv_def)
  then obtain r where r: "rendering p = [r]"
    by (cases "rendering p") auto
  from c obtain cs where "audioContext p = Some cs" by auto
  with r assms(2) show ?thesis
    by (simp add: onended_def playNext_def Let_def)
qed

text \<open>
  C1. For every sequence of \<open>playChunk\<close> calls and end-of-source events on a fresh player
  (no \<open>stopAll\<close>, no \<open>close\<close>): the buffers started so far followed by the queued ones are
  exactly the decodable chunks in call order, so buffers start in arrival order and none
  is lost; at most one source is rendering, it is the buffer started last, the playing
  flag says whether one is, a non-empty queue always has a rendering source whose end
  starts the next buffer, and no handler raises.
\<close>

theorem playback_in_arrival_order:
  assumes "\<forall>e \<in> set es. plays_only e"
  shows "started (audio_run atob (new_AudioPlayer cs) es) @ audioQueue (audio_run atob (new_AudioPlayer cs) es)
           = List.map_filter (decodeChunk atob) (chunks_of es)
       \<and> length (rendering (audio_run atob (new_AudioPlayer cs) es)) \<le> 1
       \<and> (isPlaying (audio_run atob (new_AudioPlayer cs) es)
            \<longleftrightarrow> rendering (audio_run atob (new_AudioPlayer cs) es) \<noteq> [])
       \<and> (rendering (audio_run atob (new_AudioPlayer cs) es) \<noteq> [] \<longrightarrow>
            rendering (audio_run atob (new_AudioPlayer cs) es)
              = [last (started (audio_run atob (new_AudioPlayer cs) es))])
       \<and> (audioQueue (audio_run atob (new_AudioPlayer cs) es) \<noteq> [] \<longrightarrow>
            isPlaying (audio_run atob (new_AudioPlayer cs) es))
       \<and> uncaught (audio_run atob (new_AudioPlayer cs) es) = []"
proof -
  let ?p = "audio_run atob (new_AudioPlayer cs) es"
  have "player_inv ?p" and "stream_of ?p = List.map_filter (decodeChunk atob) (chunks_of es)"
    using inv_run [OF inv_new(1) assms, of atob cs] by (simp_all add: inv_new(2))
  then show ?thesis by (auto simp: player_inv_def stream_of_def)
qed

theorem playback_in_arrival_order_witness:
  "list_all plays_only [PlayChunk ''AAD/fw=='', PlayChunk ''AIA='', SourceEnded 0]
   \<and> started (audio_run (\<lambda>s. if s = ''AAD/fw=='' then Some [0, 0, 255, 127]
                               else if s = ''AIA='' then Some [0, 128] else None)
                (new_AudioPlayer Suspended) [PlayChunk ''AAD/fw=='', PlayChunk ''AIA='', SourceEnded 0])
     = [\<lparr>numberOfChannels = 1, sampleRate = 24000, channelData = [[0, 32767 / 32768]]\<rparr>,
        \<lparr>numberOfChannels = 1, sampleRate = 24000, channelData = [[- 1]]\<rparr>]
   \<and> length (rendering (audio_run (\<lambda>s. if s = ''AAD/fw=='' then Some [0, 0, 255, 127]
                               else if s = ''AIA='' then Some [0, 128] else None)
                (new_AudioPlayer Suspended) [PlayChunk ''AAD/fw=='', PlayChunk ''AIA='', SourceEnded 0])) \<le> 1"
  using playback_in_arrival_order [of "[PlayChunk ''AAD/fw=='', PlayChunk ''AIA='', SourceEnded 0]"
      "\<lambda>s. if s = ''AAD/fw=='' then Some [0, 0, 255, 127]
                               else if s = ''AIA='' then Some [0, 128] else None" Suspended]
  by (simp add: audio_run_def playChunk_def onended_def playNext_def initialize_def
        new_AudioPlayer_def base64ToArrayBuffer_def pcm16ToAudioBuffer_def Int16Array_def
        createBuffer_def pcm16_sample_def word_cat_eq audio_error_def Let_def)

lemma length_int16_pairs: "length (int16_pairs bs) = length bs div 2"
  by (induction bs rule: int16_pairs.induct) simp_all

lemma decodeChunk_eq:
  "decodeChunk atob c =
     (case atob c of
        None \<Rightarrow> None
      | Some bytes \<Rightarrow>
          if odd (length bytes) \<or> bytes = [] then None
          else Some \<lparr>numberOfChannels = 1, sampleRate = 24000,
                      channelData = [map pcm16_sample (int16_pairs bytes)]\<rparr>)"
proof (cases "atob c")
  case None
  then show ?thesis by (simp add: decodeChunk_def base64ToArrayBuffer_def)
next
  case (Some bytes)
  show ?thesis
  proof (cases "odd (length bytes) \<or> bytes = []")
    case True
    then show ?thesis using Some
      by (auto simp: decodeChunk_def base64ToArrayBuffer_def pcm16ToAudioBuffer_def
            Int16Array_def createBuffer_def new_AudioPlayer_def Let_def)
  next
    case False
    then have "length (int16_pairs bytes) \<noteq> 0"
      unfolding length_int16_pairs by (cases bytes) auto
    then have "int16_pairs bytes \<noteq> []" by simp
    then show ?thesis using Some False
      by (simp add: decodeChunk_def base64ToArrayBuffer_def pcm16ToAudioBuffer_def
            Int16Array_def createBuffer_def new_AudioPlayer_def Let_def length_int16_pairs)
  qed
qed

lemma pcm16_sample_range: "- 1 \<le> pcm16_sample s \<and> pcm16_sample s < 1"
proof -
  have "- (2 ^ 15) \<le> sint s" "sint s < 2 ^ 15"
    using sint_ge [of s] sint_lt [of s] by simp_all
  then have "real_of_int (- (2 ^ 15)) \<le> real_of_int (sint s)"
    "real_of_int (sint s) < real_of_int (2 ^ 15)"
    by (simp_all only: of_int_le_iff of_int_less_iff)
  then show ?thesis by (simp add: pcm16_sample_def del: of_int_sint)
qed

lemma playChunk_uncaught: "uncaught (playChunk atob p c) = uncaught p"
  by (auto simp: playChunk_def playNext_def audio_error_def Let_def initialize_def
           split: sum.splits option.splits)

lemma playChunk_stream:
  assumes "audioContext p \<noteq> None" "decodeChunk atob c = Some b"
  shows "stream_of (playChunk atob p c) = stream_of p @ [b] \<and> console (playChunk atob p c) = console p"
  using assms initialize_context [OF assms(1)]
  by (cases "audioQueue p")
     (auto simp: playChunk_decodable [OF assms] stream_of_def playNext_def Let_def
           split: option.splits)

lemma playChunk_idle:
  assumes "player_inv p" "\<not> isPlaying p" "decodeChunk atob c = Some b"
  shows "started (playChunk atob p c) = started p @ [b] \<and> rendering (playChunk atob p c) = [b]
         \<and> audioQueue (playChunk atob p c) = [] \<and> isPlaying (playChunk atob p c)"
proof -
  from assms(1,2) have ctx: "audioContext p \<noteq> None" and q: "audioQueue p = []"
    and r: "rendering p = []"
    by (auto simp: player_inv_def)
  from initialize_context [OF ctx] obtain cs where "audioContext (initialize p) = Some cs"
    by auto
  with q r assms(2) show ?thesis
    by (simp add: playChunk_decodable [OF ctx assms(3)] playNext_def Let_def)
qed

lemma playChunk_busy:
  assumes "player_inv p" "isPlaying p" "decodeChunk atob c = Some b"
  shows "started (playChunk atob p c) = started p \<and> rendering (playChunk atob p c) = rendering p
         \<and> audioQueue (playChunk atob p c) = audioQueue p @ [b]"
proof -
  from assms(1) have ctx: "audioContext p \<noteq> None" by (simp add: player_inv_def)
  from assms(2) show ?thesis
    by (simp add: playChunk_decodable [OF ctx assms(3)] Let_def)
qed

text \<open>Once every source has ended, all that was pending has been started, in order.\<close>

lemma run_to_silence_plays_all:
  assumes "player_inv p"
  shows "started (run_to_silence atob p) = stream_of p \<and> audioQueue (run_to_silence atob p) = []
         \<and> rendering (run_to_silence atob p) = [] \<and> \<not> isPlaying (run_to_silence atob p)"
  using assms
proof (induction "length (audioQueue p)" arbitrary: p)
  case 0
  then have q: "audioQueue p = []" by simp
  show ?case
  proof (cases "rendering p")
    case Nil
    with 0 q show ?thesis
      by (auto simp: run_to_silence_def audio_run_def onended_def stream_of_def player_inv_def)
  next
    case (Cons r rs)
    with 0 q show ?thesis
      by (auto simp: run_to_silence_def audio_run_def onended_def playNext_def stream_of_def
            player_inv_def)
  qed
next
  case (Suc k)
  then obtain b q where bq: "audioQueue p = b # q" and k: "k = length q"
    by (cases "audioQueue p") auto
  have nxt: "started (onended p 0) = started p @ [b]" "audioQueue (onended p 0) = q"
    using onended_starts_next [OF Suc.prems bq] by simp_all
  have inv: "player_inv (onended p 0)" using inv_onended [OF Suc.prems] by simp
  have run: "run_to_silence atob p = run_to_silence atob (onended p 0)"
    by (simp add: run_to_silence_def audio_run_def bq nxt)
  from Suc.hyps(1) [of "onended p 0"] k nxt inv
  have "started (run_to_silence atob (onended p 0)) = stream_of (onended p 0)
        \<and> audioQueue (run_to_silence atob (onended p 0)) = []
        \<and> rendering (run_to_silence atob (onended p 0)) = []
        \<and> \<not> isPlaying (run_to_silence atob (onended p 0))"
    by simp
  then show ?case by (simp add: run stream_of_def nxt bq)
qed

text \<open>
  C8. On a player that has its context, a chunk decodes exactly when \<open>atob\<close> accepts it and
  gives a non-empty, even number of bytes; the buffer then has one channel at 24000 Hz
  whose samples are the 16-bit signed values divided by 32768 (all in \<open>[-1, 1)\<close>); it joins
  the output stream, started at once on an idle player and queued behind the rendering
  source otherwise. A chunk that does not decode changes nothing but the console, which
  gets one \<open>Audio error:\<close> line, and \<open>playChunk\<close> never lets an exception out. Playback
  goes on after it: once the sources have ended, every buffer that was pending before the
  bad chunk and every decodable chunk that came after it has been started, in arrival
  order, and nothing is left in the queue.
\<close>

theorem playChunk_decoding:
  assumes "audioContext p \<noteq> None"
  shows "decodeChunk atob c =
           (case atob c of
              None \<Rightarrow> None
            | Some bytes \<Rightarrow>
                if odd (length bytes) \<or> bytes = [] then None
                else Some \<lparr>numberOfChannels = 1, sampleRate = 24000,
                            channelData = [map (\<lambda>s. real_of_int (sint s) / 32768) (int16_pairs bytes)]\<rparr>)
       \<and> (\<forall>s. - 1 \<le> pcm16_sample s \<and> pcm16_sample s < 1)
       \<and> (\<forall>b. decodeChunk atob c = Some b \<longrightarrow>
             started (playChunk atob p c) @ audioQueue (playChunk atob p c)
               = started p @ audioQueue p @ [b]
             \<and> console (playChunk atob p c) = console p)
       \<and> (\<forall>b. decodeChunk atob c = Some b \<and> player_inv p \<longrightarrow>
             (if isPlaying p
              then started (playChunk atob p c) = started p
                   \<and> rendering (playChunk atob p c) = rendering p
                   \<and> audioQueue (playChunk atob p c) = audioQueue p @ [b]
              else started (playChunk atob p c) = started p @ [b]
                   \<and> rendering (playChunk atob p c) = [b]
                   \<and> audioQueue (playChunk atob p c) = []))
       \<and> (decodeChunk atob c = None \<longrightarrow>
             (\<exists>e. playChunk atob p c
                   = (initialize p)\<lparr>console := console p @ [(''Audio error:'', Some e)]\<rparr>))
       \<and> (\<forall>es. decodeChunk atob c = None \<and> player_inv p \<and> (\<forall>e \<in> set es. plays_only e) \<longrightarrow>
             started (run_to_silence atob (audio_run atob (playChunk atob p c) es))
               = started p @ audioQueue p @ List.map_filter (decodeChunk atob) (chunks_of es)
             \<and> audioQueue (run_to_silence atob (audio_run atob (playChunk atob p c) es)) = []
             \<and> rendering (run_to_silence atob (audio_run atob (playChunk atob p c) es)) = [])
       \<and> uncaught (playChunk atob p c) = uncaught p"
proof -
  have pcm: "pcm16_sample = (\<lambda>s. real_of_int (sint s) / 32768)"
    by (rule ext) (simp add: pcm16_sample_def)
  have a: "decodeChunk atob c =
           (case atob c of
              None \<Rightarrow> None
            | Some bytes \<Rightarrow>
                if odd (length bytes) \<or> bytes = [] then None
                else Some \<lparr>numberOfChannels = 1, sampleRate = 24000,
                            channelData = [map (\<lambda>s. real_of_int (sint s) / 32768) (int16_pairs bytes)]\<rparr>)"
    using decodeChunk_eq [of atob c] by (simp only: pcm)
  have b: "\<forall>b. decodeChunk atob c = Some b \<longrightarrow>
             started (playChunk atob p c) @ audioQueue (playChunk atob p c)
               = started p @ audioQueue p @ [b]
             \<and> console (playChunk atob p c) = console p"
    using playChunk_stream [OF assms] by (simp add: stream_of_def)
  have b2: "\<forall>b. decodeChunk atob c = Some b \<and> player_inv p \<longrightarrow>
             (if isPlaying p
              then started (playChunk atob p c) = started p
                   \<and> rendering (playChunk atob p c) = rendering p
                   \<and> audioQueue (playChunk atob p c) = audioQueue p @ [b]
              else started (playChunk atob p c) = started p @ [b]
                   \<and> rendering (playChunk atob p c) = [b]
                   \<and> audioQueue (playChunk atob p c) = [])"
    using playChunk_idle [of p atob c] playChunk_busy [of p atob c] by auto
  have c: "decodeChunk atob c = None \<longrightarrow>
             (\<exists>e. playChunk atob p c
                   = (initialize p)\<lparr>console := console p @ [(''Audio error:'', Some e)]\<rparr>)"
    using playChunk_undecodable [OF assms] by (simp add: audio_error_def)
  have d: "\<forall>es. decodeChunk atob c = None \<and> player_inv p \<and> (\<forall>e \<in> set es. plays_only e) \<longrightarrow>
             started (run_to_silence atob (audio_run atob (playChunk atob p c) es))
               = started p @ audioQueue p @ List.map_filter (decodeChunk atob) (chunks_of es)
             \<and> audioQueue (run_to_silence atob (audio_run atob (playChunk atob p c) es)) = []
             \<and> rendering (run_to_silence atob (audio_run atob (playChunk atob p c) es)) = []"
  proof (intro allI impI)
    fix es
    assume h: "decodeChunk atob c = None \<and> player_inv p \<and> (\<forall>e \<in> set es. plays_only e)"
    then have i: "player_inv (playChunk atob p c)"
      and s: "stream_of (playChunk atob p c) = stream_of p"
      using inv_playChunk [of p atob c] by simp_all
    from h have "\<forall>e \<in> set es. plays_only e" by simp
    from inv_run [OF i this, of atob] s
    have i2: "player_inv (audio_run atob (playChunk atob p c) es)"
      and s2: "stream_of (audio_run atob (playChunk atob p c) es)
                 = stream_of p @ List.map_filter (decodeChunk atob) (chunks_of es)"
      by simp_all
    from run_to_silence_plays_all [OF i2, of atob] s2
    show "started (run_to_silence atob (audio_run atob (playChunk atob p c) es))
               = started p @ audioQueue p @ List.map_filter (decodeChunk atob) (chunks_of es)
             \<and> audioQueue (run_to_silence atob (audio_run atob (playChunk atob p c) es)) = []
             \<and> rendering (run_to_silence atob (audio_run atob (playChunk atob p c) es)) = []"
      by (simp add: stream_of_def)
  qed
  have e: "\<forall>s. - 1 \<le> pcm16_sample s \<and> pcm16_sample s < 1"
    using pcm16_sample_range by (intro allI)
  have f: "uncaught (playChunk atob p c) = uncaught p"
    by (rule playChunk_uncaught)
  show ?thesis
    by (rule conjI [OF a conjI [OF e conjI [OF b conjI [OF b2 conjI [OF c conjI [OF d f]]]]]])
qed

theorem playChunk_decoding_witness:
  "audioContext (new_AudioPlayer Running) \<noteq> None
   \<and> decodeChunk (\<lambda>s. if s = ''AAD/fw=='' then Some [0, 0, 255, 127]
                       else if s = ''AA=='' then Some [0] else None) ''AAD/fw==''
       = Some \<lparr>numberOfChannels = 1, sampleRate = 24000, channelData = [[0, 32767 / 32768]]\<rparr>
   \<and> decodeChunk (\<lambda>s. if s = ''AAD/fw=='' then Some [0, 0, 255, 127]
                       else if s = ''AA=='' then Some [0] else None) ''AA=='' = None
   \<and> playChunk (\<lambda>s. if s = ''AAD/fw=='' then Some [0, 0, 255, 127]
                     else if s = ''AA=='' then Some [0] else None) (new_AudioPlayer Running) ''AA==''
       = (new_AudioPlayer Running)\<lparr>console := [(''Audio error:'', Some RangeError)]\<rparr>
   \<and> list_all plays_only [PlayChunk ''AAD/fw=='']
   \<and> started (run_to_silence (\<lambda>s. if s = ''AAD/fw=='' then Some [0, 0, 255, 127]
                                   else if s = ''AA=='' then Some [0] else None)
        (audio_run (\<lambda>s. if s = ''AAD/fw=='' then Some [0, 0, 255, 127]
                         else if s = ''AA=='' then Some [0] else None)
           (playChunk (\<lambda>s. if s = ''AAD/fw=='' then Some [0, 0, 255, 127]
                            else if s = ''AA=='' then Some [0] else None)
              (new_AudioPlayer Running) ''AA=='')
           [PlayChunk ''AAD/fw=='']))
       = [\<lparr>numberOfChannels = 1, sampleRate = 24000, channelData = [[0, 32767 / 32768]]\<rparr>]"
proof -
  let ?atob = "\<lambda>s. if s = ''AAD/fw=='' then Some [0, 0, 255, 127 :: 8 word]
                   else if s = ''AA=='' then Some [0] else None"
  let ?p = "new_AudioPlayer Running"
  let ?b = "\<lparr>numberOfChannels = 1, sampleRate = 24000, channelData = [[0, 32767 / 32768]]\<rparr>"
  have ctx: "audioContext ?p \<noteq> None"
    by (simp add: new_AudioPlayer_def)
  have good: "decodeChunk ?atob ''AAD/fw=='' = Some ?b"
    by (simp add: decodeChunk_eq pcm16_sample_def word_cat_eq)
  have bad: "decodeChunk ?atob ''AA=='' = None"
    by (simp add: decodeChunk_eq)
  have logged: "playChunk ?atob ?p ''AA=='' = ?p\<lparr>console := [(''Audio error:'', Some RangeError)]\<rparr>"
    by (simp add: playChunk_def initialize_def new_AudioPlayer_def base64ToArrayBuffer_def
          pcm16ToAudioBuffer_def Int16Array_def audio_error_def Let_def)
  have only: "\<forall>e \<in> set [PlayChunk ''AAD/fw=='']. plays_only e"
    by simp
  from playChunk_decoding [OF ctx, of ?atob "''AA==''"]
  have "\<forall>es. decodeChunk ?atob ''AA=='' = None \<and> player_inv ?p \<and> (\<forall>e \<in> set es. plays_only e) \<longrightarrow>
          started (run_to_silence ?atob (audio_run ?atob (playChunk ?atob ?p ''AA=='') es))
            = started ?p @ audioQueue ?p @ List.map_filter (decodeChunk ?atob) (chunks_of es)
          \<and> audioQueue (run_to_silence ?atob (audio_run ?atob (playChunk ?atob ?p ''AA=='') es)) = []
          \<and> rendering (run_to_silence ?atob (audio_run ?atob (playChunk ?atob ?p ''AA=='') es)) = []"
    by (elim conjE)
  with bad inv_new(1) [of Running] only
  have "started (run_to_silence ?atob
          (audio_run ?atob (playChunk ?atob ?p ''AA=='') [PlayChunk ''AAD/fw=='']))
        = started ?p @ audioQueue ?p
          @ List.map_filter (decodeChunk ?atob) (chunks_of [PlayChunk ''AAD/fw==''])"
    by blast
  also have "\<dots> = [?b]"
    by (simp only: chunks_of.simps List.map_filter_simps good option.case)
       (simp add: new_AudioPlayer_def)
  finally have played: "started (run_to_silence ?atob
          (audio_run ?atob (playChunk ?atob ?p ''AA=='') [PlayChunk ''AAD/fw=='']))
        = [?b]" .
  from ctx good bad logged played show ?thesis
    by simp
qed

text \<open>
  C9. \<open>stopAll\<close> empties the queue and clears the flag, and does not touch the source that
  is rendering: after \<open>playChunk\<close> then \<open>stopAll\<close> the first buffer is still rendering, and
  a chunk that arrives next is started on top of it.
\<close>

theorem stopAll_leaves_source_rendering:
  "rendering (audio_run (\<lambda>s. if s = ''AAD/fw=='' then Some [0, 0, 255, 127]
                               else if s = ''AIA='' then Some [0, 128] else None)
                (new_AudioPlayer Running) [PlayChunk ''AAD/fw=='', StopAll])
     = [\<lparr>numberOfChannels = 1, sampleRate = 24000, channelData = [[0, 32767 / 32768]]\<rparr>]
   \<and> rendering (audio_run (\<lambda>s. if s = ''AAD/fw=='' then Some [0, 0, 255, 127]
                               else if s = ''AIA='' then Some [0, 128] else None)
                (new_AudioPlayer Running) [PlayChunk ''AAD/fw=='', StopAll, PlayChunk ''AIA=''])
     = [\<lparr>numberOfChannels = 1, sampleRate = 24000, channelData = [[0, 32767 / 32768]]\<rparr>,
        \<lparr>numberOfChannels = 1, sampleRate = 24000, channelData = [[- 1]]\<rparr>]"
  by (simp add: audio_run_def playChunk_def stopAll_def playNext_def initialize_def
        new_AudioPlayer_def base64ToArrayBuffer_def pcm16ToAudioBuffer_def Int16Array_def
        createBuffer_def pcm16_sample_def word_cat_eq audio_error_def Let_def)

text \<open>
  The rest of the stop and close contract holds: both are idempotent, neither raises, and
  after \<open>close\<close> nothing is started or rendering.
\<close>

lemma stopAll_idem: "stopAll (stopAll p) = stopAll p"
  by (simp add: stopAll_def)

lemma close_idem: "close (close p) = close p"
  by (simp add: close_def stopAll_def Let_def split: option.splits)

lemma close_after_stopAll: "close (stopAll p) = close p"
  by (simp add: close_def stopAll_def Let_def split: option.splits)

lemma stop_close_no_throw:
  "uncaught (stopAll p) = uncaught p" "uncaught (close p) = uncaught p"
  by (simp_all add: close_def stopAll_def Let_def split: option.splits)

lemma closed_step:
  assumes "audioContext p = None" "audioQueue p = []"
  shows "audioContext (audio_step atob p e) = None \<and> audioQueue (audio_step atob p e) = []
         \<and> started (audio_step atob p e) = started p \<and> uncaught (audio_step atob p e) = uncaught p"
  using assms
  by (cases e) (auto simp: playChunk_def onended_def playNext_def stopAll_def close_def Let_def)

lemma closed_run:
  assumes "audioContext p = None" "audioQueue p = []"
  shows "started (audio_run atob p es) = started p \<and> uncaught (audio_run atob p es) = uncaught p"
  using assms
proof (induction es arbitrary: p)
  case Nil
  then show ?case by (simp add: audio_run_def)
next
  case (Cons e es)
  from closed_step [OF Cons.prems, of atob e] Cons.IH [of "audio_step atob p e"]
  show ?case by (simp add: audio_run_def)
qed

lemma nothing_starts_after_close:
  "started (audio_run atob (close p) es) = started p \<and> rendering (close p) = (if audioContext p = None then rendering p else [])"
  using closed_run [of "close p" atob es]
  by (auto simp: close_def stopAll_def Let_def split: option.splits)


section \<open>Session state machine and outbound turns\<close>

lemma handleMessage_uncaught:
  "map_option uncaught (audioPlayerRef (handleMessage atob h m)) = map_option uncaught (audioPlayerRef h)"
  by (cases m) (auto simp: handleMessage_def say_def playChunk_uncaught split: option.splits)

text \<open>
  C4, as stated, fails: \<open>handleMessage\<close> never looks at the current status, so a
  \<open>question\<close> received while connecting makes the session active, and an \<open>error\<close> message
  is only logged and leaves the session connecting.
\<close>

theorem question_activates_while_connecting:
  "status (state_current connected_hook) = Connecting
   \<and> status (state_current (handleMessage (\<lambda>s. None) connected_hook (question ''Tell me about yourself'' 1))) = Active
   \<and> status (state_current (handleMessage (\<lambda>s. None) connected_hook (error ''server error''))) = Connecting"
  by (simp add: handleMessage_def connected_hook_def initial_state_def say_def)

text \<open>
  C4, amended. \<open>handleMessage\<close> does not test the current status. While the status is
  \<open>Connecting\<close>: \<open>ready\<close> only sets the status to \<open>Ready\<close>; \<open>question\<close> sets it to \<open>Active\<close>,
  empties the question text, stores the index and sets \<open>aiSpeaking\<close>; \<open>ended\<close> sets it to
  \<open>Ended\<close> and stores the interview id; \<open>ai_transcript_delta\<close> only appends to the question
  text and \<open>ai_done_speaking\<close> only clears \<open>aiSpeaking\<close>; \<open>ai_audio\<close>, \<open>error\<close> and unknown
  kinds leave the state record as it was, so an error does not end the session. Only
  \<open>ai_audio\<close> touches the player, by passing it the chunk, and no message raises.
\<close>

theorem connecting_transitions:
  assumes "status (state_current h) = Connecting"
  shows "state_current (handleMessage atob h m)
           = (case m of
                ready \<Rightarrow> (state_current h)\<lparr>status := Ready\<rparr>
              | question t i \<Rightarrow>
                  (state_current h)\<lparr>status := Active, currentQuestion := [], questionIndex := i,
                                     aiSpeaking := True\<rparr>
              | ai_audio a \<Rightarrow> state_current h
              | ai_transcript_delta t \<Rightarrow>
                  (state_current h)\<lparr>currentQuestion := currentQuestion (state_current h) @ t\<rparr>
              | ai_done_speaking \<Rightarrow> (state_current h)\<lparr>aiSpeaking := False\<rparr>
              | ended i \<Rightarrow> (state_current h)\<lparr>status := Ended, interviewId := i\<rparr>
              | error e \<Rightarrow> state_current h
              | Unknown ty \<Rightarrow> state_current h)
       \<and> status (state_current (handleMessage atob h m))
           = (case m of ready \<Rightarrow> Ready | question t i \<Rightarrow> Active | ended i \<Rightarrow> Ended
              | _ \<Rightarrow> Connecting)
       \<and> audioPlayerRef (handleMessage atob h m)
           = (case m of
                ai_audio a \<Rightarrow> map_option (\<lambda>player. playChunk atob player a) (audioPlayerRef h)
              | _ \<Rightarrow> audioPlayerRef h)
       \<and> map_option uncaught (audioPlayerRef (handleMessage atob h m))
           = map_option uncaught (audioPlayerRef h)"
proof -
  have a: "state_current (handleMessage atob h m)
           = (case m of
                ready \<Rightarrow> (state_current h)\<lparr>status := Ready\<rparr>
              | question t i \<Rightarrow>
                  (state_current h)\<lparr>status := Active, currentQuestion := [], questionIndex := i,
                                     aiSpeaking := True\<rparr>
              | ai_audio a \<Rightarrow> state_current h
              | ai_transcript_delta t \<Rightarrow>
                  (state_current h)\<lparr>currentQuestion := currentQuestion (state_current h) @ t\<rparr>
              | ai_done_speaking \<Rightarrow> (state_current h)\<lparr>aiSpeaking := False\<rparr>
              | ended i \<Rightarrow> (state_current h)\<lparr>status := Ended, interviewId := i\<rparr>
              | error e \<Rightarrow> state_current h
              | Unknown ty \<Rightarrow> state_current h)"
    by (cases m) (auto simp: handleMessage_def say_def split: option.splits)
  have b: "status (state_current (handleMessage atob h m))
           = (case m of ready \<Rightarrow> Ready | question t i \<Rightarrow> Active | ended i \<Rightarrow> Ended
              | _ \<Rightarrow> Connecting)"
    using assms by (cases m) (auto simp: handleMessage_def say_def split: option.splits)
  have c: "audioPlayerRef (handleMessage atob h m)
           = (case m of
                ai_audio a \<Rightarrow> map_option (\<lambda>player. playChunk atob player a) (audioPlayerRef h)
              | _ \<Rightarrow> audioPlayerRef h)"
    by (cases m) (auto simp: handleMessage_def say_def split: option.splits)
  from a b c handleMessage_uncaught [of atob h m] show ?thesis by (intro conjI)
qed

theorem connecting_transitions_witness:
  "status (state_current connected_hook) = Connecting
   \<and> state_current (handleMessage (\<lambda>s. None) connected_hook ready)
       = initial_state\<lparr>status := Ready\<rparr>
   \<and> state_current (handleMessage (\<lambda>s. None) connected_hook (question ''Tell me about yourself'' 1))
       = initial_state\<lparr>status := Active, questionIndex := 1, aiSpeaking := True\<rparr>
   \<and> state_current (handleMessage (\<lambda>s. None) connected_hook (ai_audio ''AAA=''))
       = initial_state
   \<and> state_current (handleMessage (\<lambda>s. None) connected_hook (ended (Some 42)))
       = initial_state\<lparr>status := Ended, interviewId := Some 42\<rparr>"
  using connecting_transitions [of connected_hook "\<lambda>s. None" ready]
    connecting_transitions [of connected_hook "\<lambda>s. None" "question ''Tell me about yourself'' 1"]
    connecting_transitions [of connected_hook "\<lambda>s. None" "ai_audio ''AAA=''"]
    connecting_transitions [of connected_hook "\<lambda>s. None" "ended (Some 42)"]
  by (simp add: connected_hook_def initial_state_def)

text \<open>
  C7, as stated, fails: with a closed socket, or none, \<open>sendTranscript\<close> returns the hook
  unchanged: nothing is sent, nothing is logged, nothing is raised. The silence timer that
  calls it has written its \<open>Sending\<close> line before the call and clears the buffer after it,
  so the turn is gone and the console shows no failure.
\<close>

theorem sendTranscript_drops_silently:
  "sendTranscript (connected_hook\<lparr>ws := Some CLOSED\<rparr>) ''I led a team of five''
     = connected_hook\<lparr>ws := Some CLOSED\<rparr>
   \<and> sendTranscript (connected_hook\<lparr>ws := None\<rparr>) ''I led a team of five''
     = connected_hook\<lparr>ws := None\<rparr>
   \<and> silence_elapsed
        (connected_layout\<lparr>voiceInterview := connected_hook\<lparr>ws := None\<rparr>,
                           transcriptBufferRef := ''I led a team of five '',
                           silenceTimerRef := Some 2500\<rparr>)
     = connected_layout\<lparr>voiceInterview :=
                            connected_hook\<lparr>ws := None,
                                            hook_console := [Sending ''I led a team of five '']\<rparr>\<rparr>"
  by (simp add: sendTranscript_def silence_elapsed_def connected_layout_def connected_hook_def
        say_def trim_def is_space_def Let_def)

text \<open>
  C7, amended. \<open>sendTranscript\<close> hands \<open>response_complete\<close> to the socket, and logs the
  first 50 characters, exactly when there is a socket and it is \<open>OPEN\<close>; otherwise it
  does nothing at all. The silence timer, for a buffer that is non-empty after trimming,
  logs \<open>Sending\<close> with the buffer, calls \<open>sendTranscript\<close> with the trimmed buffer and
  clears the buffer: the turn is sent if the socket is open and dropped if not, and a
  dropped turn leaves the \<open>Sending\<close> line alone on the console, with no line for the
  failure.
\<close>

theorem sendTranscript_only_when_open:
  "(ws h = Some OPEN \<longrightarrow>
      sent (sendTranscript h t) = sent h @ [response_complete t]
      \<and> hook_console (sendTranscript h t) = hook_console h @ [SendingTranscript (take 50 t)])
   \<and> (ws h \<noteq> Some OPEN \<longrightarrow> sendTranscript h t = h)
   \<and> (trim (transcriptBufferRef l) \<noteq> [] \<longrightarrow>
        transcriptBufferRef (silence_elapsed l) = []
        \<and> sent (voiceInterview (silence_elapsed l))
            = (if ws (voiceInterview l) = Some OPEN
               then sent (voiceInterview l) @ [response_complete (trim (transcriptBufferRef l))]
               else sent (voiceInterview l))
        \<and> hook_console (voiceInterview (silence_elapsed l))
            = hook_console (voiceInterview l) @ [Sending (transcriptBufferRef l)]
              @ (if ws (voiceInterview l) = Some OPEN
                 then [SendingTranscript (take 50 (trim (transcriptBufferRef l)))]
                 else []))"
  by (simp add: sendTranscript_def silence_elapsed_def say_def Let_def)

theorem sendTranscript_only_when_open_witness:
  "ws connected_hook = Some OPEN
   \<and> sent (sendTranscript connected_hook ''I led a team of five'') = [response_complete ''I led a team of five'']
   \<and> ws (connected_hook\<lparr>ws := Some CONNECTING\<rparr>) \<noteq> Some OPEN
   \<and> sendTranscript (connected_hook\<lparr>ws := Some CONNECTING\<rparr>) ''I led a team of five''
       = connected_hook\<lparr>ws := Some CONNECTING\<rparr>
   \<and> trim (transcriptBufferRef (connected_layout\<lparr>transcriptBufferRef := ''I led a team of five ''\<rparr>)) \<noteq> []
   \<and> sent (voiceInterview (silence_elapsed (connected_layout\<lparr>transcriptBufferRef := ''I led a team of five ''\<rparr>)))
       = [response_complete ''I led a team of five'']
   \<and> hook_console (voiceInterview (silence_elapsed (connected_layout\<lparr>transcriptBufferRef := ''I led a team of five ''\<rparr>)))
       = [Sending ''I led a team of five '', SendingTranscript ''I led a team of five'']"
  using sendTranscript_only_when_open [of connected_hook "''I led a team of five''"
          "connected_layout\<lparr>transcriptBufferRef := ''I led a team of five ''\<rparr>"]
        sendTranscript_only_when_open [of "connected_hook\<lparr>ws := Some CONNECTING\<rparr>" "''I led a team of five''"
          "connected_layout\<lparr>transcriptBufferRef := ''I led a team of five ''\<rparr>"]
  by (simp add: connected_hook_def connected_layout_def trim_def is_space_def)

section \<open>Turn completion and the end of the session\<close>

text \<open>No inbound message touches the silence timer or the buffer.\<close>

lemma message_keeps_timer:
  "silenceTimerRef (layout_step atob l (now, Message m)) = silenceTimerRef (advance now l)
   \<and> transcriptBufferRef (layout_step atob l (now, Message m)) = transcriptBufferRef (advance now l)"
  by simp

text \<open>
  C3. A final fragment at 1000 ms arms the timer for 3500 ms; \<open>ended\<close> arrives at 2000 ms:
  the status becomes \<open>Ended\<close>, the timer is still pending and the buffer still full; at
  3500 ms the timer fires and, the socket being open, the turn is sent after the end.
\<close>

theorem ended_does_not_cancel_silence_timer:
  "silenceTimerRef (layout_run (\<lambda>s. None) connected_layout
      [(0, Message ready), (10, Message (question ''Tell me about yourself'' 1)),
       (1000, Transcript ''I led a team of five'' True), (2000, Message (ended (Some 42)))]) = Some 3500
   \<and> status (state_current (voiceInterview (layout_run (\<lambda>s. None) connected_layout
      [(0, Message ready), (10, Message (question ''Tell me about yourself'' 1)),
       (1000, Transcript ''I led a team of five'' True), (2000, Message (ended (Some 42)))]))) = Ended
   \<and> sent (voiceInterview (layout_run (\<lambda>s. None) connected_layout
      [(0, Message ready), (10, Message (question ''Tell me about yourself'' 1)),
       (1000, Transcript ''I led a team of five'' True), (2000, Message (ended (Some 42)))])) = []
   \<and> sent (voiceInterview (advance 3500 (layout_run (\<lambda>s. None) connected_layout
      [(0, Message ready), (10, Message (question ''Tell me about yourself'' 1)),
       (1000, Transcript ''I led a team of five'' True), (2000, Message (ended (Some 42)))])))
       = [response_complete ''I led a team of five'']"
  by (simp add: layout_run_def advance_def handleTranscript_def handleMessage_def say_def
        silence_elapsed_def sendTranscript_def connected_layout_def connected_hook_def
        initial_state_def trim_def is_space_def Let_def)


section \<open>Turn completion in the interview page\<close>

lemma onresult_loop_keeps:
  "page_ws (fst (onresult_loop ts results acc)) = page_ws (fst acc)
   \<and> page_sent (fst (onresult_loop ts results acc)) = page_sent (fst acc)
   \<and> page_silenceTimer (fst (onresult_loop ts results acc)) = page_silenceTimer (fst acc)"
  by (induction ts results acc rule: onresult_loop.induct) auto

lemma onresult_keeps:
  "page_ws (onresult now pg results) = page_ws pg \<and> page_sent (onresult now pg results) = page_sent pg"
  using onresult_loop_keeps [of "real now / 1000" results "(pg, [])"]
  by (cases "onresult_loop (real now / 1000) results (pg, [])") (simp add: onresult_def)

lemma page_timeout_keeps_ws: "page_ws (page_timeout pg) = page_ws pg"
  by (simp add: page_timeout_def Let_def split: option.splits readyState.splits)

lemma page_timeout_no_socket: "page_ws pg = None \<Longrightarrow> page_sent (page_timeout pg) = page_sent pg"
  by (simp add: page_timeout_def Let_def)

lemma page_step_no_socket:
  assumes "page_ws pg = None"
  shows "page_ws (page_step pg ev) = None \<and> page_sent (page_step pg ev) = page_sent pg"
  using assms
  by (auto simp: page_step_def page_advance_def onresult_keeps page_timeout_keeps_ws
        page_timeout_no_socket split: option.splits)

lemma page_run_no_socket:
  assumes "page_ws pg = None"
  shows "page_ws (page_run pg evs) = None \<and> page_sent (page_run pg evs) = page_sent pg"
  using assms
proof (induction evs arbitrary: pg)
  case Nil
  then show ?case by (simp add: page_run_def)
next
  case (Cons ev evs)
  from page_step_no_socket [OF Cons.prems, of ev] Cons.IH [of "page_step pg ev"]
  show ?case by (simp add: page_run_def)
qed

text \<open>Whatever the recognizer delivers, and however long the silence, the page sends nothing.\<close>

lemma page_never_sends:
  "page_sent (page_advance now (page_run mounted_page evs)) = []"
proof -
  have a: "page_ws (page_run mounted_page evs) = None" "page_sent (page_run mounted_page evs) = []"
    using page_run_no_socket [of mounted_page evs] by (simp_all add: mounted_page_def)
  then show ?thesis
    by (simp add: page_advance_def page_timeout_no_socket split: option.splits)
qed

text \<open>
  The flush itself is as described once the closure holds an open socket: before the timer
  is due nothing happens; when it is due, a buffer that is non-empty after trimming goes
  out as one message and is cleared.
\<close>

lemma page_flush_when_open:
  assumes "page_ws pg = Some OPEN" "page_silenceTimer pg = Some due"
  shows "now < due \<Longrightarrow> page_advance now pg = pg"
    and "due \<le> now \<Longrightarrow> trim (finalTranscript pg) \<noteq> [] \<Longrightarrow>
           page_sent (page_advance now pg) = page_sent pg @ [response_complete (trim (finalTranscript pg))]
           \<and> finalTranscript (page_advance now pg) = [] \<and> page_silenceTimer (page_advance now pg) = None"
    and "due \<le> now \<Longrightarrow> trim (finalTranscript pg) = [] \<Longrightarrow>
           page_sent (page_advance now pg) = page_sent pg
           \<and> finalTranscript (page_advance now pg) = finalTranscript pg"
  using assms by (simp_all add: page_advance_def page_timeout_def Let_def)

text \<open>
  C2. One final fragment, then silence: the timer is armed for 2500 ms, fires, finds
  \<open>ws\<close> null, sends nothing and leaves the buffer as it was.
\<close>

theorem page_turn_never_sent:
  "page_silenceTimer (page_run mounted_page [(0, [(''I led a team of five'', True)])]) = Some 2500
   \<and> page_advance 2500 (page_run mounted_page [(0, [(''I led a team of five'', True)])])
       = mounted_page\<lparr>finalTranscript := ''I led a team of five ''\<rparr>"
  by (simp add: page_run_def page_step_def page_advance_def onresult_def page_timeout_def
        mounted_page_def detectFillerWords_def toLowerCase_def lower_char_def strip_punct_def
        fillerWords_def trim_def is_space_def Let_def)


section \<open>Speech capture: restart policies\<close>

lemma backoff_bounded: "min 30000 (1000 * 2 ^ (min n 5)) \<le> (30000::nat)"
  by simp

lemma backoff_monotone:
  assumes "n \<le> m"
  shows "min 30000 (1000 * 2 ^ (min n 5)) \<le> (min 30000 (1000 * 2 ^ (min m 5)) :: nat)"
proof -
  have "min n 5 \<le> min m 5" using assms by simp
  then have "(2::nat) ^ (min n 5) \<le> 2 ^ (min m 5)" by (rule power_increasing) simp
  then have "1000 * (2::nat) ^ (min n 5) \<le> 1000 * 2 ^ (min m 5)" by simp
  then show ?thesis by (rule min.mono [OF order_refl])
qed

text \<open>
  Over the cloud SDK a restart is scheduled whatever the number of attempts so far: nothing
  in \<open>scheduleRestart\<close> compares the counter with a limit.
\<close>

lemma scheduleRestart_armed:
  assumes "sdk_enabledRef s" "\<not> manuallyStoppedRef s" "restartTimeoutRef s = None"
  shows "restartAttemptRef (scheduleRestart now reason s) = restartAttemptRef s + 1"
    and "restartTimeoutRef (scheduleRestart now reason s)
           = Some (now + (if reason = normal then 1000
                          else min 30000 (1000 * 2 ^ (min (restartAttemptRef s + 1) 5))))"
    and "sdk_error (scheduleRestart now reason s) = sdk_error s"
  using assms by (cases reason; simp add: scheduleRestart_def Let_def)+

lemma rejected_start_restarts:
  assumes "sdk_enabledRef s" "\<not> manuallyStoppedRef s" "restartTimeoutRef s = None"
    "0 < starts_pending s"
  shows "restartTimeoutRef (start_rejected now msg s)
           = Some (now + min 30000 (1000 * 2 ^ (min (restartAttemptRef s + 1) 5)))
         \<and> restartAttemptRef (start_rejected now msg s) = restartAttemptRef s + 1
         \<and> sdk_error (start_rejected now msg s) = Some msg"
  using assms by (simp add: start_rejected_def catch_start_def scheduleRestart_def Let_def)

text \<open>
  Two ways a start ends without a restart: with the configuration missing the error is
  set and nothing is scheduled; after a script that failed to load, the call waits for
  events that have already fired, sets no error and schedules nothing.
\<close>

lemma start_without_restart:
  assumes "sdk_enabledRef s" "\<not> manuallyStoppedRef s"
  shows "\<not> speech_config s \<Longrightarrow> restartTimeoutRef (startRecognition now s) = None
           \<and> sdk_error (startRecognition now s) \<noteq> None"
    and "speech_config s \<Longrightarrow> script s = ScriptFailed \<Longrightarrow>
           restartTimeoutRef (startRecognition now s) = None
           \<and> sdk_error (startRecognition now s) = sdk_error s
           \<and> loads_stuck (startRecognition now s) = loads_stuck s + 1
           \<and> recognitions_started (startRecognition now s) = recognitions_started s"
  using assms
  by (simp_all add: startRecognition_def clearRestartTimer_def stopAndDisposeRecognizer_def
        Let_def)

lemma onend_below_cap:
  assumes "enabledRef w" "restartAttempts w < MAX_RESTARTS"
  shows "restartAttempts (onend now w) = restartAttempts w + 1
         \<and> restart_timers (onend now w) = restart_timers w @ [now + 1500]
         \<and> speech_error (onend now w) = speech_error w"
  using assms by (simp add: onend_def Let_def)

lemma onend_at_cap:
  assumes "enabledRef w" "MAX_RESTARTS \<le> restartAttempts w"
  shows "speech_error (onend now w) = Some ''Speech recognition failed''
         \<and> restart_timers (onend now w) = restart_timers w
         \<and> restartAttempts (onend now w) = restartAttempts w"
  using assms by (simp add: onend_def Let_def)

lemma eight_rejected_starts:
  "sdk_timers (sdk_mount 0 True True)
     [(100, ScriptSettled LoadedWithSdk),
      (100, StartRejected ''Failed to start Azure Speech recognition.''),
      (2100, StartRejected ''Failed to start Azure Speech recognition.''),
      (6100, StartRejected ''Failed to start Azure Speech recognition.''),
      (14100, StartRejected ''Failed to start Azure Speech recognition.''),
      (30100, StartRejected ''Failed to start Azure Speech recognition.''),
      (60100, StartRejected ''Failed to start Azure Speech recognition.''),
      (90100, StartRejected ''Failed to start Azure Speech recognition.''),
      (120100, StartRejected ''Failed to start Azure Speech recognition.'')]
   = [None, Some 2100, Some 6100, Some 14100, Some 30100, Some 60100, Some 90100, Some 120100,
      Some 150100]"
  by (simp add: sdk_mount_def sdk_effect_def sdk_advance_def restart_fired_def
        startRecognition_def script_settled_def create_and_start_def start_rejected_def
        catch_start_def scheduleRestart_def clearRestartTimer_def stopAndDisposeRecognizer_def
        Let_def)

lemma eight_rejected_starts_state:
  "sdk_run (sdk_mount 0 True True)
     [(100, ScriptSettled LoadedWithSdk),
      (100, StartRejected ''Failed to start Azure Speech recognition.''),
      (2100, StartRejected ''Failed to start Azure Speech recognition.''),
      (6100, StartRejected ''Failed to start Azure Speech recognition.''),
      (14100, StartRejected ''Failed to start Azure Speech recognition.''),
      (30100, StartRejected ''Failed to start Azure Speech recognition.''),
      (60100, StartRejected ''Failed to start Azure Speech recognition.''),
      (90100, StartRejected ''Failed to start Azure Speech recognition.''),
      (120100, StartRejected ''Failed to start Azure Speech recognition.'')]
   = \<lparr>sdk_enabledRef = True, manuallyStoppedRef = False, restartTimeoutRef = Some 150100,
      restartAttemptRef = 8, sdk_isListening = False,
      sdk_error = Some ''Failed to start Azure Speech recognition.'', recognizerRef = True,
      speech_config = True, script = SdkLoaded, loads_waiting = 0, loads_stuck = 0,
      starts_pending = 0, recognitions_started = 8\<rparr>"
  by (simp add: sdk_run_def sdk_mount_def sdk_effect_def sdk_advance_def restart_fired_def
        startRecognition_def script_settled_def create_and_start_def start_rejected_def
        catch_start_def scheduleRestart_def clearRestartTimer_def stopAndDisposeRecognizer_def
        Let_def)

lemma fixed_restart_delay:
  "restart_timers (speech_run (speech_mount True) [(1000, RecognitionEnded)]) = [2500]
   \<and> restart_timers (speech_run (speech_mount True) [(1000, RecognitionEnded), (5000, RecognitionEnded)]) = [6500]"
  by (simp add: speech_run_def speech_advance_def speech_mount_def try_start_def
        recognition_ended_def onend_def MAX_RESTARTS_def Let_def)

text \<open>
  C5. Neither hook does what the claim says. Over the cloud SDK, with the script loaded,
  eight starts in a row are rejected: the restarts come 2, 4, 8, 16, 30, 30, 30 and 30 s
  after the failures, and after the eighth failure a ninth start is scheduled, the counter
  stands at 8 and the error is the message of the last failure: no cap, no terminal
  error. Over the browser recognizer every restart comes 1500 ms after the end: no
  backoff.
\<close>

theorem restart_without_cap_or_backoff:
  "sdk_timers (sdk_mount 0 True True)
     [(100, ScriptSettled LoadedWithSdk),
      (100, StartRejected ''Failed to start Azure Speech recognition.''),
      (2100, StartRejected ''Failed to start Azure Speech recognition.''),
      (6100, StartRejected ''Failed to start Azure Speech recognition.''),
      (14100, StartRejected ''Failed to start Azure Speech recognition.''),
      (30100, StartRejected ''Failed to start Azure Speech recognition.''),
      (60100, StartRejected ''Failed to start Azure Speech recognition.''),
      (90100, StartRejected ''Failed to start Azure Speech recognition.''),
      (120100, StartRejected ''Failed to start Azure Speech recognition.'')]
   = [None, Some 2100, Some 6100, Some 14100, Some 30100, Some 60100, Some 90100, Some 120100,
      Some 150100]
   \<and> restartAttemptRef (sdk_run (sdk_mount 0 True True)
     [(100, ScriptSettled LoadedWithSdk),
      (100, StartRejected ''Failed to start Azure Speech recognition.''),
      (2100, StartRejected ''Failed to start Azure Speech recognition.''),
      (6100, StartRejected ''Failed to start Azure Speech recognition.''),
      (14100, StartRejected ''Failed to start Azure Speech recognition.''),
      (30100, StartRejected ''Failed to start Azure Speech recognition.''),
      (60100, StartRejected ''Failed to start Azure Speech recognition.''),
      (90100, StartRejected ''Failed to start Azure Speech recognition.''),
      (120100, StartRejected ''Failed to start Azure Speech recognition.'')]) = 8
   \<and> sdk_error (sdk_run (sdk_mount 0 True True)
     [(100, ScriptSettled LoadedWithSdk),
      (100, StartRejected ''Failed to start Azure Speech recognition.''),
      (2100, StartRejected ''Failed to start Azure Speech recognition.''),
      (6100, StartRejected ''Failed to start Azure Speech recognition.''),
      (14100, StartRejected ''Failed to start Azure Speech recognition.''),
      (30100, StartRejected ''Failed to start Azure Speech recognition.''),
      (60100, StartRejected ''Failed to start Azure Speech recognition.''),
      (90100, StartRejected ''Failed to start Azure Speech recognition.''),
      (120100, StartRejected ''Failed to start Azure Speech recognition.'')])
     = Some ''Failed to start Azure Speech recognition.''
   \<and> restart_timers (speech_run (speech_mount True) [(1000, RecognitionEnded)]) = [2500]
   \<and> restart_timers (speech_run (speech_mount True) [(1000, RecognitionEnded), (5000, RecognitionEnded)]) = [6500]"
  unfolding eight_rejected_starts eight_rejected_starts_state
  using fixed_restart_delay by simp

section \<open>Speech capture: restarts after disable\<close>

text \<open>
  C6. Over the browser recognizer: the session ends at 1000 ms and \<open>onend\<close> schedules a
  restart for 2500 ms; \<open>enabled\<close> turns false at 2000 ms (or the component unmounts). The
  timer is still pending, and at 2500 ms it starts the recognizer: a second capture
  session runs while the hook is disabled (or gone).
\<close>

theorem restart_fires_after_disable:
  "sessions_started (speech_run (speech_mount True)
      [(0, RecognitionStarted), (1000, RecognitionEnded), (2000, SetEnabled False)]) = 1
   \<and> restart_timers (speech_run (speech_mount True)
      [(0, RecognitionStarted), (1000, RecognitionEnded), (2000, SetEnabled False)]) = [2500]
   \<and> speech_advance 2500 (speech_run (speech_mount True)
      [(0, RecognitionStarted), (1000, RecognitionEnded), (2000, SetEnabled False)])
     = \<lparr>enabledRef = False, restartAttempts = 1, isListening = False, speech_error = None,
        onend_set = True, recognizing = True, restart_timers = [], sessions_started = 2\<rparr>
   \<and> speech_advance 2500 (speech_run (speech_mount True)
      [(0, RecognitionStarted), (1000, RecognitionEnded), (2000, UnmountHook)])
     = \<lparr>enabledRef = True, restartAttempts = 1, isListening = False, speech_error = None,
        onend_set = False, recognizing = True, restart_timers = [], sessions_started = 2\<rparr>"
  by (simp add: speech_run_def speech_advance_def speech_mount_def try_start_def set_enabled_def
        recognition_ended_def onend_def speech_unmount_def MAX_RESTARTS_def Let_def)

text \<open>
  The hook over the cloud SDK does cancel its timer: after a disable, an unmount or \<open>stop\<close>
  no timer is pending, and a new start, a timer callback or a request to schedule changes
  nothing.
\<close>

lemma sdk_disable_cancels:
  "restartTimeoutRef (sdk_set_enabled now False s) = None
   \<and> manuallyStoppedRef (sdk_set_enabled now False s)
   \<and> \<not> recognizerRef (sdk_set_enabled now False s)
   \<and> startRecognition t (sdk_set_enabled now False s) = sdk_set_enabled now False s
   \<and> restart_fired t (sdk_set_enabled now False s) = sdk_set_enabled now False s
   \<and> scheduleRestart t reason (sdk_set_enabled now False s) = sdk_set_enabled now False s"
  by (simp add: sdk_set_enabled_def sdk_effect_def sdk_cleanup_def clearRestartTimer_def
        stopAndDisposeRecognizer_def startRecognition_def restart_fired_def scheduleRestart_def
        Let_def)

lemma sdk_cleanup_cancels:
  "restartTimeoutRef (sdk_cleanup s) = None
   \<and> startRecognition t (sdk_cleanup s) = sdk_cleanup s
   \<and> restart_fired t (sdk_cleanup s) = sdk_cleanup s
   \<and> scheduleRestart t reason (sdk_cleanup s) = sdk_cleanup s"
  by (simp add: sdk_cleanup_def clearRestartTimer_def
        stopAndDisposeRecognizer_def startRecognition_def restart_fired_def scheduleRestart_def
        Let_def)

text \<open>
  A start that is already waiting for the SDK script is not checked again: the hook is
  mounted enabled, disabled at 50 ms while the script loads, and when the script arrives
  at 100 ms the waiting call makes a recognizer and starts it.
\<close>

lemma sdk_start_in_flight_survives_disable:
  "sdk_run (sdk_mount 0 True True) [(50, EnabledChanged False), (100, ScriptSettled LoadedWithSdk)]
   = \<lparr>sdk_enabledRef = False, manuallyStoppedRef = True, restartTimeoutRef = None,
      restartAttemptRef = 0, sdk_isListening = False, sdk_error = None, recognizerRef = True,
      speech_config = True, script = SdkLoaded, loads_waiting = 0, loads_stuck = 0,
      starts_pending = 1, recognitions_started = 1\<rparr>"
  by (simp add: sdk_run_def sdk_mount_def sdk_effect_def sdk_advance_def sdk_set_enabled_def
        sdk_cleanup_def startRecognition_def script_settled_def create_and_start_def
        clearRestartTimer_def stopAndDisposeRecognizer_def Let_def)

section \<open>Filler-word detection\<close>

lemma split_space_ne: "split_space s \<noteq> []"
  by (induction s) (auto simp: Let_def)

lemma split_space_no_space: "w \<in> set (split_space s) \<Longrightarrow> CHR '' '' \<notin> set w"
proof (induction s arbitrary: w)
  case Nil
  then show ?case by simp
next
  case (Cons c cs)
  obtain h t where ht: "split_space cs = h # t"
    using split_space_ne [of cs] by (cases "split_space cs") auto
  show ?case using Cons ht by (auto simp: Let_def split: if_splits)
qed

lemma strip_punct_no_space: "CHR '' '' \<notin> set w \<Longrightarrow> CHR '' '' \<notin> set (strip_punct w)"
  by (simp add: strip_punct_def)

lemma token_not_you_know:
  "w \<in> set (split_space s) \<Longrightarrow> strip_punct w \<noteq> ''you know''"
proof
  assume w: "w \<in> set (split_space s)" and eq: "strip_punct w = ''you know''"
  have "CHR '' '' \<notin> set (strip_punct w)"
    using w by (intro strip_punct_no_space split_space_no_space)
  with eq show False by simp
qed

lemma foldl_log_filter:
  "foldl (\<lambda>acc w. if P w then logEvent acc (f w) else acc) tline tokens
     = tline @ map f (filter P tokens)"
  by (induction tokens arbitrary: tline) (auto simp: logEvent_def)

text \<open>
  C10. \<open>detectFillerWords\<close> lowercases the fragment, splits it at single spaces and appends,
  for each token whose punctuation-stripped form is one of the single-word fillers
  \<open>um, uh, like, basically, literally\<close>, exactly one \<open>filler_word\<close> event of severity
  \<open>warning\<close>, in token order; no token ever equals the two-word entry \<open>you know\<close>, so that
  entry of the list never produces an event.
\<close>

theorem detectFillerWords_events:
  "detectFillerWords text ts timeline =
     timeline @ map (filler_event ts)
       (filter (\<lambda>w. strip_punct w \<in> {''um'', ''uh'', ''like'', ''basically'', ''literally''})
          (split_space (toLowerCase text)))
   \<and> (\<forall>w \<in> set (split_space (toLowerCase text)). strip_punct w \<noteq> ''you know'')
   \<and> (\<forall>w. etype (filler_event ts w) = ''filler_word'' \<and> severity (filler_event ts w) = ''warning'')"
proof -
  let ?ws = "split_space (toLowerCase text)"
  have no: "\<forall>w \<in> set ?ws. strip_punct w \<noteq> ''you know''"
    using token_not_you_know by blast
  have "filter (\<lambda>w. strip_punct w \<in> set fillerWords) ?ws =
        filter (\<lambda>w. strip_punct w \<in> {''um'', ''uh'', ''like'', ''basically'', ''literally''}) ?ws"
    using no by (intro filter_cong refl) (auto simp: fillerWords_def)
  then have "detectFillerWords text ts timeline =
     timeline @ map (filler_event ts)
       (filter (\<lambda>w. strip_punct w \<in> {''um'', ''uh'', ''like'', ''basically'', ''literally''}) ?ws)"
    by (simp add: detectFillerWords_def foldl_log_filter)
  with no show ?thesis by (simp add: filler_event_def)
qed

theorem detectFillerWords_events_witness:
  "map data_word (detectFillerWords ''Um, you know, I LIKE it'' 2 []) = [''um,'', ''like'']
   \<and> map strip_punct (split_space (toLowerCase ''Um, you know, I LIKE it''))
       = [''um'', ''you'', ''know'', ''i'', ''like'', ''it'']"
  using detectFillerWords_events [of "''Um, you know, I LIKE it''" 2 "[]"]
  by (simp add: toLowerCase_def lower_char_def strip_punct_def filler_event_def)

end
